theory Spec2Isabelle
  imports Complex_Main "HOL-Library.List_Lexorder" "HOL-Library.Char_ord"
begin

section \<open>Data model\<close>

text \<open>
  The dashboard works on one table of sales records. A categorical cell holds text or is
  missing (pandas' NaN): the columns are the text columns that the reader yields when the
  fields of a column do not all read as numbers or booleans. The quantity column is a
  column of integers (int64). Strings are byte strings; the emoji of the source's labels
  are left out of the literals.
\<close>

datatype cell = Str string | NaN

record row =
  sheet_name :: cell
  location :: cell
  day :: cell
  event_type :: cell
  series_character :: cell
  character_variant :: cell
  product_type :: cell
  quantity :: int

type_synonym table = "row list"

text \<open>Values of the frames that the aggregations build, and those frames.\<close>

datatype val = IntV int | RealV real | TextV string | NanV

record dframe =
  columns :: "string list"
  drows :: "val list list"

datatype frame = Sales table | Derived dframe

section \<open>The dataframe operations the script calls\<close>

text \<open>
  \<open>==\<close> between a column and a selection: a missing cell equals nothing, not even a
  missing selection.
\<close>

fun eq_cell :: "cell \<Rightarrow> cell \<Rightarrow> bool" where
  "eq_cell (Str a) (Str b) = (a = b)"
| "eq_cell _ _ = False"

text \<open>\<open>df[df[col] == v]\<close>: the rows whose cell equals the selection, in order.\<close>

definition select_eq :: "(row \<Rightarrow> cell) \<Rightarrow> cell \<Rightarrow> table \<Rightarrow> table" where
  "select_eq col v df = filter (\<lambda>r. eq_cell (col r) v) df"

text \<open>\<open>Series.unique()\<close>: the distinct values in order of first appearance, NaN included.\<close>

definition unique :: "'a list \<Rightarrow> 'a list" where
  "unique xs = rev (remdups (rev xs))"

text \<open>\<open>Series.nunique()\<close>: the number of distinct values that are not missing.\<close>

definition nunique :: "cell list \<Rightarrow> nat" where
  "nunique xs = length (remdups (filter (\<lambda>c. c \<noteq> NaN) xs))"

text \<open>
  Sums of the integer column are 64-bit: numpy adds int64 values with wrap-around.
\<close>

definition wrap64 :: "int \<Rightarrow> int" where
  "wrap64 n = (n + 2 ^ 63) mod 2 ^ 64 - 2 ^ 63"

definition sum_i64 :: "int list \<Rightarrow> int" where
  "sum_i64 qs = wrap64 (sum_list qs)"

definition min_q :: "int list \<Rightarrow> val" where
  "min_q qs = (if qs = [] then NanV else IntV (fold min (tl qs) (hd qs)))"

definition max_q :: "int list \<Rightarrow> val" where
  "max_q qs = (if qs = [] then NanV else IntV (fold max (tl qs) (hd qs)))"

text \<open>
  Means and standard deviations are binary floats (float64). A float is carried as the
  real number it denotes, and every floating-point operation is the exact operation
  followed by rounding to the nearest float, ties to the even significand. The exponent
  range is not modelled: the values here stay far inside it.
\<close>

definition round_half_even :: "real \<Rightarrow> int" where
  "round_half_even y =
     (let f = \<lfloor>y\<rfloor>; d = y - of_int f
      in if d < 1 / 2 then f else if 1 / 2 < d then f + 1 else if even f then f else f + 1)"

definition fl64 :: "real \<Rightarrow> real" where
  "fl64 x =
     (if x = 0 then 0
      else let u = 2 powr (of_int \<lfloor>log 2 \<bar>x\<bar>\<rfloor> - 52)
           in of_int (round_half_even (x / u)) * u)"

text \<open>
  The mean of an integer column: the values are converted to floats and added, and the
  sum is divided by the count. The conversions and the additions are exact as long as the
  absolute values of the quantities total less than \<open>2 ^ 53\<close>; the model does not
  determine the mean of a column beyond that.
\<close>

definition mean :: "int list \<Rightarrow> val" where
  "mean qs =
     (if qs = [] then NanV else RealV (fl64 (real_of_int (sum_list qs) / real (length qs))))"

text \<open>
  The sample standard deviation (ddof = 1) of a group, as the library computes it: one
  pass over the values that keeps the count, the running mean and the sum of squared
  deviations (Welford's update), each operation rounded; the result is missing for fewer
  than two values, and the square root of a negative float is missing.
\<close>

definition welford_step :: "real \<Rightarrow> nat \<times> real \<times> real \<Rightarrow> nat \<times> real \<times> real" where
  "welford_step x st =
     (case st of (n, m, s) \<Rightarrow>
        let m' = fl64 (m + fl64 (fl64 (x - m) / real (Suc n)))
        in (Suc n, m', fl64 (s + fl64 (fl64 (x - m') * fl64 (x - m)))))"

definition std :: "int list \<Rightarrow> val" where
  "std qs =
     (if length qs < 2 then NanV
      else case fold welford_step (map real_of_int qs) (0, 0, 0) of
             (n, m, s) \<Rightarrow>
               let v = fl64 (s / real (n - 1))
               in if v < 0 then NanV else RealV (fl64 (sqrt v)))"

text \<open>
  \<open>.round(2)\<close>: numpy multiplies a float by 100, rounds to the nearest integer, halves
  to the even one, and divides by 100, each step a floating-point operation; integer
  columns are unchanged.
\<close>

fun round2 :: "val \<Rightarrow> val" where
  "round2 (RealV x) = RealV (fl64 (of_int (round_half_even (fl64 (x * 100))) / 100))"
| "round2 v = v"

text \<open>
  \<open>groupby(cols)\<close>: rows with a missing key cell belong to no group; the groups come out
  in ascending key order, each with its rows in table order.
\<close>

fun key_of :: "(row \<Rightarrow> cell) list \<Rightarrow> row \<Rightarrow> string list option" where
  "key_of [] r = Some []"
| "key_of (c # cs) r =
     (case c r of
        NaN \<Rightarrow> None
      | Str s \<Rightarrow> (case key_of cs r of None \<Rightarrow> None | Some ks \<Rightarrow> Some (s # ks)))"

fun upsert :: "'k::linorder \<Rightarrow> 'v \<Rightarrow> ('k \<times> 'v list) list \<Rightarrow> ('k \<times> 'v list) list" where
  "upsert k v [] = [(k, [v])]"
| "upsert k v ((k', vs) # rest) =
     (if k = k' then (k', vs @ [v]) # rest
      else if k < k' then (k, [v]) # (k', vs) # rest
      else (k', vs) # upsert k v rest)"

definition group_step :: "(row \<Rightarrow> cell) list \<Rightarrow> row \<Rightarrow> (string list \<times> row list) list
    \<Rightarrow> (string list \<times> row list) list" where
  "group_step cols r acc = (case key_of cols r of None \<Rightarrow> acc | Some k \<Rightarrow> upsert k r acc)"

definition groupby :: "(row \<Rightarrow> cell) list \<Rightarrow> table \<Rightarrow> (string list \<times> row list) list" where
  "groupby cols df = fold (group_step cols) df []"

text \<open>\<open>groupby(cols)['quantity'].sum()\<close>, as (key, total) pairs.\<close>

definition groupby_sum :: "(row \<Rightarrow> cell) list \<Rightarrow> table \<Rightarrow> (string list \<times> int) list" where
  "groupby_sum cols df = map (\<lambda>(k, rs). (k, sum_i64 (map quantity rs))) (groupby cols df)"

text \<open>\<open>.reset_index()\<close> of such a series: the key columns, then the quantity column.\<close>

definition reset_index :: "string list \<Rightarrow> (string list \<times> int) list \<Rightarrow> dframe" where
  "reset_index names s =
     \<lparr>columns = names @ [''quantity''], drows = map (\<lambda>(k, t). map TextV k @ [IntV t]) s\<rparr>"

text \<open>
  Sorting rows by an integer key. Ascending order is a stable sort; descending order is
  pandas' reverse, sort, reverse, so that ties keep table order (the order among ties of
  the library's default quicksort is not specified; the model fixes the stable one).
\<close>

definition sort_asc :: "('a \<Rightarrow> int) \<Rightarrow> 'a list \<Rightarrow> 'a list" where
  "sort_asc f xs = sort_key f xs"

definition sort_desc :: "('a \<Rightarrow> int) \<Rightarrow> 'a list \<Rightarrow> 'a list" where
  "sort_desc f xs = rev (sort_key f (rev xs))"

section \<open>Python built-ins the script calls\<close>

datatype error = TypeError | ValueError

fun is_str :: "cell \<Rightarrow> bool" where
  "is_str (Str s) = True"
| "is_str NaN = False"

fun texts :: "cell list \<Rightarrow> string list" where
  "texts [] = []"
| "texts (Str s # cs) = s # texts cs"
| "texts (NaN # cs) = texts cs"

text \<open>
  \<open>sorted(xs)\<close> on the values of a column: text sorts by code point; comparing text with
  a float NaN raises TypeError; NaNs alone compare false both ways and stay as they are.
\<close>

definition py_sorted :: "cell list \<Rightarrow> error + cell list" where
  "py_sorted xs =
     (if list_all is_str xs then Inr (map Str (sort (texts xs)))
      else if list_ex is_str xs then Inl TypeError
      else Inr xs)"

text \<open>The comprehension's condition \<open>x and str(x) != 'nan'\<close>.\<close>

fun shown_choice :: "cell \<Rightarrow> bool" where
  "shown_choice NaN = False"
| "shown_choice (Str s) = (s \<noteq> [] \<and> s \<noteq> ''nan'')"

text \<open>\<open>str(x)\<close>, as the f-strings format a selection.\<close>

fun py_str :: "cell \<Rightarrow> string" where
  "py_str (Str s) = s"
| "py_str NaN = ''nan''"

fun join_with :: "string \<Rightarrow> string list \<Rightarrow> string" where
  "join_with sep [] = []"
| "join_with sep [x] = x"
| "join_with sep (x # y # ys) = x @ sep @ join_with sep (y # ys)"

text \<open>\<open>sep.join(xs)\<close> raises TypeError on an item that is not text.\<close>

definition py_join :: "string \<Rightarrow> cell list \<Rightarrow> error + string" where
  "py_join sep xs = (if list_all is_str xs then Inr (join_with sep (texts xs)) else Inl TypeError)"

section \<open>What a run renders\<close>

datatype chart_kind = Bar | Pie | Treemap | Imshow | Sunburst

record fig =
  fig_kind :: chart_kind
  fig_title :: string
  fig_data :: dframe
  fig_args :: "(string \<times> string) list"

datatype ui =
    St_markdown string
  | St_card string "val list"
  | St_sidebar_header string
  | St_selectbox string "cell list" cell
  | St_info string
  | St_success string
  | St_warning string
  | St_error string
  | St_metric string val
  | St_dataframe frame
  | St_plotly_chart fig
  | St_expander string
  | St_download_button string frame string

section \<open>State and effects\<close>

text \<open>
  The CSV file as the reader sees it: absent, or its records with the text of the seven
  categorical fields and the integer of the quantity field.
\<close>

record csv_line =
  f_sheet_name :: string
  f_location :: string
  f_day :: string
  f_event_type :: string
  f_series_character :: string
  f_character_variant :: string
  f_product_type :: string
  f_quantity :: int

text \<open>
  The state a run can touch: the file, the random generator's stream, the process-local
  cache of \<open>load_data\<close>, and the store of dataframe objects. A Python variable holding a
  dataframe is an address into the store.
\<close>

record world =
  csv_file :: "csv_line list option"
  entropy :: "nat \<Rightarrow> nat"
  cache :: "(table \<times> ui list) option"
  heap :: "frame list"

text \<open>
  A step returns a value, raises, or stops the script (\<open>st.stop()\<close>); it yields the
  elements it rendered and the new state.
\<close>

datatype 'a res = Val 'a | Raise error | Stopped

type_synonym 'a prog = "world \<Rightarrow> 'a res \<times> ui list \<times> world"

definition ret :: "'a \<Rightarrow> 'a prog" where
  "ret x w = (Val x, [], w)"

definition pbind :: "'a prog \<Rightarrow> ('a \<Rightarrow> 'b prog) \<Rightarrow> 'b prog" where
  "pbind m f w =
     (case m w of
        (Val x, out, w') \<Rightarrow> (case f x w' of (r, out', w'') \<Rightarrow> (r, out @ out', w''))
      | (Raise e, out, w') \<Rightarrow> (Raise e, out, w')
      | (Stopped, out, w') \<Rightarrow> (Stopped, out, w'))"

definition emit :: "ui \<Rightarrow> unit prog" where
  "emit u w = (Val (), [u], w)"

definition raise_err :: "error \<Rightarrow> 'a prog" where
  "raise_err e w = (Raise e, [], w)"

definition st_stop :: "'a prog" where
  "st_stop w = (Stopped, [], w)"

definition alloc :: "frame \<Rightarrow> nat prog" where
  "alloc fr w = (Val (length (heap w)), [], w\<lparr>heap := heap w @ [fr]\<rparr>)"

definition frame_at :: "world \<Rightarrow> nat \<Rightarrow> frame" where
  "frame_at w a = (if a < length (heap w) then heap w ! a else Sales [])"

definition table_at :: "world \<Rightarrow> nat \<Rightarrow> table" where
  "table_at w a = (case frame_at w a of Sales t \<Rightarrow> t | Derived d \<Rightarrow> [])"

definition dframe_at :: "world \<Rightarrow> nat \<Rightarrow> dframe" where
  "dframe_at w a =
     (case frame_at w a of Sales t \<Rightarrow> \<lparr>columns = [], drows = []\<rparr> | Derived d \<Rightarrow> d)"

definition get_table :: "nat \<Rightarrow> table prog" where
  "get_table a w = (Val (table_at w a), [], w)"

definition get_dframe :: "nat \<Rightarrow> dframe prog" where
  "get_dframe a w = (Val (dframe_at w a), [], w)"

text \<open>\<open>df[col]\<close>: the cells of one column of the table at an address.\<close>

definition column :: "nat \<Rightarrow> (row \<Rightarrow> 'a) \<Rightarrow> 'a list prog" where
  "column a col = pbind (get_table a) (\<lambda>t. ret (map col t))"

text \<open>\<open>frame[name] = values\<close>: adds a column to the object at the address, in place.\<close>

definition set_column :: "nat \<Rightarrow> string \<Rightarrow> (val list \<Rightarrow> val) \<Rightarrow> unit prog" where
  "set_column a name f w =
     (let d = dframe_at w a;
          d' = \<lparr>columns = columns d @ [name], drows = map (\<lambda>r. r @ [f r]) (drows d)\<rparr>
      in (Val (), [], w\<lparr>heap := (heap w)[a := Derived d']\<rparr>))"

section \<open>load_data\<close>

text \<open>
  \<open>pd.read_csv\<close> with its defaults: a field that is empty or one of the NA markers is
  read as missing, every other field of a categorical column as its text. (A column whose
  fields all read as numbers or booleans is typed as such by the library; the model has
  text cells only, and the statements that depend on the type of a column say so.)
\<close>

definition na_values :: "string list" where
  "na_values =
     ['''', ''#N/A'', ''#N/A N/A'', ''#NA'', ''-1.#IND'', ''-1.#QNAN'', ''-NaN'', ''-nan'',
      ''1.#IND'', ''1.#QNAN'', ''<NA>'', ''N/A'', ''NA'', ''NULL'', ''NaN'', ''None'', ''n/a'',
      ''nan'', ''null'']"

definition parse_cell :: "string \<Rightarrow> cell" where
  "parse_cell s = (if s \<in> set na_values then NaN else Str s)"

definition parse_line :: "csv_line \<Rightarrow> row" where
  "parse_line l =
     \<lparr>sheet_name = parse_cell (f_sheet_name l), location = parse_cell (f_location l),
      day = parse_cell (f_day l), event_type = parse_cell (f_event_type l),
      series_character = parse_cell (f_series_character l),
      character_variant = parse_cell (f_character_variant l),
      product_type = parse_cell (f_product_type l), quantity = f_quantity l\<rparr>"

definition read_csv :: "csv_line list \<Rightarrow> table" where
  "read_csv ls = map parse_line ls"

text \<open>\<open>xs * n\<close> on a Python list.\<close>

definition py_repeat :: "'a list \<Rightarrow> nat \<Rightarrow> 'a list" where
  "py_repeat xs n = concat (replicate n xs)"

text \<open>
  \<open>np.random.randint(lo, hi, n)\<close>: \<open>n\<close> draws from the generator's stream, each reduced
  into \<open>lo \<le> q < hi\<close>; the generator moves on by \<open>n\<close> draws.
\<close>

definition randint :: "int \<Rightarrow> int \<Rightarrow> nat \<Rightarrow> int list prog" where
  "randint lo hi n w =
     (Val (map (\<lambda>i. lo + int (entropy w i mod nat (hi - lo))) [0..<n]), [],
      w\<lparr>entropy := (\<lambda>i. entropy w (i + n))\<rparr>)"

text \<open>\<open>pd.DataFrame(data)\<close> from eight columns: ValueError unless all have one length.\<close>

definition data_frame :: "cell list \<Rightarrow> cell list \<Rightarrow> cell list \<Rightarrow> cell list \<Rightarrow> cell list
    \<Rightarrow> cell list \<Rightarrow> cell list \<Rightarrow> int list \<Rightarrow> error + table" where
  "data_frame c1 c2 c3 c4 c5 c6 c7 q =
     (if list_all (\<lambda>c. length c = length q) [c1, c2, c3, c4, c5, c6, c7]
      then Inr (map (\<lambda>i. \<lparr>sheet_name = c1 ! i, location = c2 ! i, day = c3 ! i,
                  event_type = c4 ! i, series_character = c5 ! i, character_variant = c6 ! i,
                  product_type = c7 ! i, quantity = q ! i\<rparr>) [0..<length q])
      else Inl ValueError)"

text \<open>The texts of the three messages of the script.\<close>

abbreviation not_found_msg :: string where
  "not_found_msg \<equiv> ''CSV file not found! Please make sure cleaned_convention_sales_data.csv is in the same directory as this script.''"

abbreviation sample_msg :: string where
  "sample_msg \<equiv> ''Using sample data for demonstration. Please upload your actual CSV file.''"

abbreviation no_match_msg :: string where
  "no_match_msg \<equiv> ''No data matches your current filter selection. Please adjust your filters.''"

definition load_data_body :: "nat prog" where
  "load_data_body w =
     (case csv_file w of
        Some ls \<Rightarrow> alloc (Sales (read_csv ls)) w
      | None \<Rightarrow>
          pbind (emit (St_error not_found_msg)) (\<lambda>_.
          pbind (randint 1 20 150) (\<lambda>qs.
          case data_frame
                 (py_repeat [Str ''MEGA LDN SAT'', Str ''MEGA LDN SUN'', Str ''AL LDN SAT''] 50)
                 (py_repeat [Str ''London'', Str ''London'', Str ''London''] 50)
                 (py_repeat [Str ''Saturday'', Str ''Sunday'', Str ''Saturday''] 50)
                 (py_repeat [Str ''Mega'', Str ''Mega'', Str ''AL''] 50)
                 (py_repeat [Str ''JJK'', Str ''Frieren'', Str ''ACNH''] 50)
                 (py_repeat [Str ''Fish'', Str ''Frieren'', Str ''Blathers''] 50)
                 (py_repeat [Str ''Bag'', Str ''Keyring'', Str ''Pin''] 50)
                 qs of
            Inl e \<Rightarrow> raise_err e
          | Inr t \<Rightarrow>
              pbind (alloc (Sales t)) (\<lambda>df.
              pbind (emit (St_warning sample_msg)) (\<lambda>_.
              ret df)))) w)"

text \<open>
  \<open>@st.cache_data\<close>: the first call that returns stores the returned table and the
  elements the body rendered; every later call in the process gets a fresh copy of the
  stored table and the stored elements again, and the body does not run.
\<close>

definition cache_data :: "nat prog \<Rightarrow> nat prog" where
  "cache_data body w =
     (case cache w of
        Some (t, msgs) \<Rightarrow> (Val (length (heap w)), msgs, w\<lparr>heap := heap w @ [Sales t]\<rparr>)
      | None \<Rightarrow>
          (case body w of
             (Val a, msgs, w') \<Rightarrow> (Val a, msgs, w'\<lparr>cache := Some (table_at w' a, msgs)\<rparr>)
           | (Raise e, msgs, w') \<Rightarrow> (Raise e, msgs, w')
           | (Stopped, msgs, w') \<Rightarrow> (Stopped, msgs, w')))"

definition load_data :: "nat prog" where
  "load_data = cache_data load_data_body"

section \<open>The chart functions\<close>

text \<open>
  Each function groups the table, builds the frame to chart and returns the figure. On the
  tables of the data model, with text key columns and an integer quantity column, no step
  raises. (The library raises a TypeError in \<open>create_top_characters\<close> when a key column
  is numeric, or when the quantity column of a table without rows has no numeric type;
  such tables are not in the model.)
\<close>

definition nth_val :: "val list \<Rightarrow> nat \<Rightarrow> val" where
  "nth_val r i = (if i < length r then r ! i else NanV)"

fun as_int :: "val \<Rightarrow> int" where
  "as_int (IntV i) = i"
| "as_int v = 0"

fun as_text :: "val \<Rightarrow> string" where
  "as_text (TextV s) = s"
| "as_text v = []"

text \<open>The rows of a frame in a new order or number, as \<open>sort_values\<close>, \<open>nlargest\<close>, \<open>head\<close> return.\<close>

definition sort_values :: "nat \<Rightarrow> bool \<Rightarrow> dframe \<Rightarrow> dframe" where
  "sort_values i ascending d =
     d\<lparr>drows := (if ascending then sort_asc (\<lambda>r. as_int (nth_val r i)) (drows d)
                  else sort_desc (\<lambda>r. as_int (nth_val r i)) (drows d))\<rparr>"

definition nlargest :: "nat \<Rightarrow> nat \<Rightarrow> dframe \<Rightarrow> dframe" where
  "nlargest n i d = d\<lparr>drows := take n (sort_desc (\<lambda>r. as_int (nth_val r i)) (drows d))\<rparr>"

definition head :: "nat \<Rightarrow> dframe \<Rightarrow> dframe" where
  "head n d = d\<lparr>drows := take n (drows d)\<rparr>"

definition create_sales_by_location :: "nat \<Rightarrow> fig prog" where
  "create_sales_by_location df =
     pbind (get_table df) (\<lambda>t.
     pbind (alloc (Derived (reset_index [''location''] (groupby_sum [location] t)))) (\<lambda>location_sales.
     pbind (get_dframe location_sales) (\<lambda>d.
     ret \<lparr>fig_kind = Bar, fig_title = ''Sales by Location'', fig_data = d,
          fig_args = [(''x'', ''location''), (''y'', ''quantity''), (''color'', ''quantity''),
                      (''color_continuous_scale'', ''viridis''), (''height'', ''400'')]\<rparr>)))"

definition create_event_comparison :: "nat \<Rightarrow> fig prog" where
  "create_event_comparison df =
     pbind (get_table df) (\<lambda>t.
     pbind (alloc (Derived (reset_index [''event_type'', ''location'']
                      (groupby_sum [event_type, location] t)))) (\<lambda>event_sales.
     pbind (get_dframe event_sales) (\<lambda>d.
     ret \<lparr>fig_kind = Bar, fig_title = ''Event Type Performance by Location'', fig_data = d,
          fig_args = [(''x'', ''location''), (''y'', ''quantity''), (''color'', ''event_type''),
                      (''barmode'', ''group''), (''height'', ''400'')]\<rparr>)))"

definition create_product_performance :: "nat \<Rightarrow> fig prog" where
  "create_product_performance df =
     pbind (get_table df) (\<lambda>t.
     pbind (alloc (Derived (reset_index [''product_type''] (groupby_sum [product_type] t)))) (\<lambda>product_sales.
     pbind (get_dframe product_sales) (\<lambda>d.
     pbind (alloc (Derived (sort_values 1 True d))) (\<lambda>product_sales'.
     pbind (get_dframe product_sales') (\<lambda>d'.
     ret \<lparr>fig_kind = Bar, fig_title = ''Product Performance'', fig_data = d',
          fig_args = [(''x'', ''quantity''), (''y'', ''product_type''), (''orientation'', ''h''),
                      (''color'', ''quantity''), (''color_continuous_scale'', ''plasma''),
                      (''height'', ''400'')]\<rparr>)))))"

definition full_name :: "val list \<Rightarrow> val" where
  "full_name r = TextV (as_text (nth_val r 0) @ '' - '' @ as_text (nth_val r 1))"

definition create_top_characters :: "nat \<Rightarrow> fig prog" where
  "create_top_characters df =
     pbind (get_table df) (\<lambda>t.
     pbind (alloc (Derived (reset_index [''series_character'', ''character_variant'']
                      (groupby_sum [series_character, character_variant] t)))) (\<lambda>char_sales.
     pbind (set_column char_sales ''full_name'' full_name) (\<lambda>_.
     pbind (get_dframe char_sales) (\<lambda>d.
     pbind (alloc (Derived (nlargest 15 2 d))) (\<lambda>char_sales'.
     pbind (get_dframe char_sales') (\<lambda>d'.
     ret \<lparr>fig_kind = Treemap, fig_title = ''Top Characters by Sales'', fig_data = d',
          fig_args = [(''path'', ''series_character, character_variant''), (''values'', ''quantity''),
                      (''color'', ''quantity''), (''color_continuous_scale'', ''blues''),
                      (''height'', ''500'')]\<rparr>))))))"

definition create_daily_performance :: "nat \<Rightarrow> fig prog" where
  "create_daily_performance df =
     pbind (get_table df) (\<lambda>t.
     pbind (alloc (Derived (reset_index [''day'', ''event_type'']
                      (groupby_sum [day, event_type] t)))) (\<lambda>day_sales.
     pbind (get_dframe day_sales) (\<lambda>d.
     ret \<lparr>fig_kind = Pie, fig_title = ''Sales Distribution by Day'', fig_data = d,
          fig_args = [(''values'', ''quantity''), (''names'', ''day''), (''height'', ''400'')]\<rparr>)))"

section \<open>The sections of the page\<close>

text \<open>\<open>idxmax()\<close> and \<open>max()\<close> of a grouped series: the first entry that holds the maximum.\<close>

definition idxmax :: "(string list \<times> int) list \<Rightarrow> (string list \<times> int) option" where
  "idxmax s =
     (case s of
        [] \<Rightarrow> None
      | x # xs \<Rightarrow> Some (fold (\<lambda>y best. if snd best < snd y then y else best) xs x))"

text \<open>A card for the top entry of a grouped series, when the series is not empty.\<close>

definition top_card :: "string \<Rightarrow> (string list \<Rightarrow> string) \<Rightarrow> (string list \<times> int) list \<Rightarrow> unit prog" where
  "top_card label name s =
     (case idxmax s of
        None \<Rightarrow> ret ()
      | Some (k, m) \<Rightarrow> emit (St_card label [TextV (name k), IntV m]))"

text \<open>The top character's name: both parts when the second is not empty, cut to 20 characters.\<close>

definition char_name :: "string list \<Rightarrow> string" where
  "char_name k =
     (let a = (case k of [] \<Rightarrow> [] | x # _ \<Rightarrow> x);
          b = (case k of _ # y # _ \<Rightarrow> y | _ \<Rightarrow> []);
          n = (if b \<noteq> [] then a @ '' - '' @ b else a)
      in take 20 n @ (if 20 < length n then ''...'' else []))"

definition regional_rows :: "table \<Rightarrow> val list list" where
  "regional_rows t =
     map (\<lambda>(k, rs). map TextV k @
            [IntV (sum_i64 (map quantity rs)), round2 (mean (map quantity rs)),
             IntV (int (length rs)), IntV (int (nunique (map product_type rs))),
             IntV (int (nunique (map series_character rs)))])
       (groupby [location] t)"

text \<open>\<open>frame.columns = names\<close>: renames the columns of the object at the address, in place.\<close>

definition set_columns :: "nat \<Rightarrow> string list \<Rightarrow> unit prog" where
  "set_columns a names w =
     (Val (), [], w\<lparr>heap := (heap w)[a := Derived ((dframe_at w a)\<lparr>columns := names\<rparr>)]\<rparr>)"

text \<open>\<open>st.dataframe(frame)\<close>: renders the object at the address as it is now.\<close>

definition st_dataframe :: "nat \<Rightarrow> unit prog" where
  "st_dataframe a w = emit (St_dataframe (frame_at w a)) w"

definition create_overview_metrics :: "nat \<Rightarrow> unit prog" where
  "create_overview_metrics df =
     pbind (column df quantity) (\<lambda>q.
     pbind (emit (St_card ''Total Sales'' [IntV (sum_i64 q)])) (\<lambda>_.
     pbind (column df sheet_name) (\<lambda>c.
     pbind (emit (St_card ''Events'' [IntV (int (nunique c))])) (\<lambda>_.
     pbind (column df series_character) (\<lambda>c.
     pbind (emit (St_card ''Series'' [IntV (int (nunique c))])) (\<lambda>_.
     pbind (column df quantity) (\<lambda>q.
     pbind (emit (St_card ''Avg per Item'' [mean q])) (\<lambda>_.
     pbind (column df product_type) (\<lambda>c.
     pbind (emit (St_card ''Product Types'' [IntV (int (nunique c))])) (\<lambda>_.
     pbind (emit (St_markdown ''Performance Breakdown'')) (\<lambda>_.
     pbind (get_table df) (\<lambda>t.
     pbind (top_card ''Top Location'' (\<lambda>k. join_with '', '' k) (groupby_sum [location] t)) (\<lambda>_.
     pbind (get_table df) (\<lambda>t.
     pbind (top_card ''Top Character'' char_name
              (groupby_sum [series_character, character_variant] t)) (\<lambda>_.
     pbind (get_table df) (\<lambda>t.
     pbind (top_card ''Top Product'' (\<lambda>k. join_with '', '' k) (groupby_sum [product_type] t)) (\<lambda>_.
     pbind (emit (St_markdown ''Regional Performance'')) (\<lambda>_.
     pbind (get_table df) (\<lambda>t.
     pbind (alloc (Derived \<lparr>columns = [''location'', ''quantity sum'', ''quantity mean'',
                ''quantity count'', ''product_type nunique'', ''series_character nunique''],
              drows = regional_rows t\<rparr>)) (\<lambda>regional_stats.
     pbind (set_columns regional_stats [''location'', ''Total Sales'', ''Avg per Item'',
              ''Total Items'', ''Product Types'', ''Series Count'']) (\<lambda>_.
     pbind (get_dframe regional_stats) (\<lambda>d.
     pbind (alloc (Derived (sort_values 1 False d))) (\<lambda>regional_stats'.
     st_dataframe regional_stats')))))))))))))))))))))))"

text \<open>
  The aggregation of \<open>create_character_analysis\<close>: per (series, variant) group the sum,
  mean and count of the quantities, and the group's distinct locations and product types
  joined with commas. The join raises when a group holds a missing location or product type.
\<close>

fun char_rows :: "(string list \<times> row list) list \<Rightarrow> error + val list list" where
  "char_rows [] = Inr []"
| "char_rows ((k, rs) # gs) =
     (case py_join '', '' (unique (map location rs)) of
        Inl e \<Rightarrow> Inl e
      | Inr locs \<Rightarrow>
          (case py_join '', '' (unique (map product_type rs)) of
             Inl e \<Rightarrow> Inl e
           | Inr prods \<Rightarrow>
               (case char_rows gs of
                  Inl e \<Rightarrow> Inl e
                | Inr rest \<Rightarrow>
                    Inr ((map TextV k @
                          [IntV (sum_i64 (map quantity rs)), round2 (mean (map quantity rs)),
                           IntV (int (length rs)), TextV locs, TextV prods]) # rest))))"

text \<open>
  \<open>frame.pivot(index, columns, values).fillna(0)\<close> on a frame whose (index, columns)
  pairs are distinct: one row per index value, one column per columns value, 0 where the
  pair has no row. The values are integers when no pair is absent, floats otherwise.
\<close>

definition pivot :: "nat \<Rightarrow> nat \<Rightarrow> nat \<Rightarrow> dframe \<Rightarrow> dframe" where
  "pivot ix col v d =
     (let cs = sort (remdups (map (\<lambda>r. as_text (nth_val r col)) (drows d)));
          ixs = sort (remdups (map (\<lambda>r. as_text (nth_val r ix)) (drows d)));
          entries = map (\<lambda>r. ((as_text (nth_val r ix), as_text (nth_val r col)),
                               as_int (nth_val r v))) (drows d);
          complete = list_all (\<lambda>i. list_all (\<lambda>c. map_of entries (i, c) \<noteq> None) cs) ixs
      in \<lparr>columns = (if ix < length (columns d) then columns d ! ix else []) # cs,
          drows = map (\<lambda>i. TextV i # map (\<lambda>c.
                     case map_of entries (i, c) of
                       None \<Rightarrow> RealV 0
                     | Some t \<Rightarrow> (if complete then IntV t else RealV (real_of_int t))) cs) ixs\<rparr>)"

text \<open>\<open>df[df[col].isin(values)]\<close>.\<close>

definition select_isin :: "(row \<Rightarrow> cell) \<Rightarrow> string list \<Rightarrow> table \<Rightarrow> table" where
  "select_isin col vs df = filter (\<lambda>r. case col r of Str s \<Rightarrow> s \<in> set vs | NaN \<Rightarrow> False) df"

definition create_character_analysis :: "nat \<Rightarrow> unit prog" where
  "create_character_analysis df =
     pbind (emit (St_markdown ''Character Performance Analysis'')) (\<lambda>_.
     pbind (get_table df) (\<lambda>t.
     (case char_rows (groupby [series_character, character_variant] t) of
        Inl e \<Rightarrow> raise_err e
      | Inr rows \<Rightarrow>
     pbind (alloc (Derived \<lparr>columns = [''series_character'', ''character_variant'', ''quantity sum'',
                ''quantity mean'', ''quantity count'', ''location'', ''product_type''],
              drows = rows\<rparr>)) (\<lambda>char_analysis.
     pbind (set_columns char_analysis [''series_character'', ''character_variant'', ''Total Sales'',
              ''Avg per Event'', ''Events Count'', ''Locations'', ''Products'']) (\<lambda>_.
     pbind (get_dframe char_analysis) (\<lambda>d.
     pbind (alloc (Derived (sort_values 2 False d))) (\<lambda>char_analysis'.
     pbind (emit (St_markdown ''Top Character Performance'')) (\<lambda>_.
     pbind (get_dframe char_analysis') (\<lambda>d.
     pbind (alloc (Derived (head 15 d))) (\<lambda>top_chars.
     pbind (st_dataframe top_chars) (\<lambda>_.
     pbind (get_table df) (\<lambda>t.
     pbind (alloc (Derived (reset_index [''location'', ''series_character'']
                      (groupby_sum [location, series_character] t)))) (\<lambda>char_location.
     pbind (get_dframe char_location) (\<lambda>cl.
     pbind (alloc (Derived (pivot 1 0 2 cl))) (\<lambda>char_location_pivot.
     pbind (get_dframe char_location_pivot) (\<lambda>p.
     pbind (emit (St_plotly_chart \<lparr>fig_kind = Imshow,
              fig_title = ''Character Performance Heatmap by Location'', fig_data = p,
              fig_args = [(''color_continuous_scale'', ''viridis''), (''aspect'', ''auto''),
                          (''height'', ''400'')]\<rparr>)) (\<lambda>_.
     pbind (get_dframe char_analysis') (\<lambda>d.
     pbind (get_table df) (\<lambda>t.
     pbind (alloc (Sales (select_isin series_character
                      (unique (map (\<lambda>r. as_text (nth_val r 0)) (drows (head 8 d)))) t))) (\<lambda>char_product.
     pbind (get_table char_product) (\<lambda>cp.
     pbind (alloc (Derived (reset_index [''series_character'', ''product_type'']
                      (groupby_sum [series_character, product_type] cp)))) (\<lambda>char_product_summary.
     pbind (get_dframe char_product_summary) (\<lambda>s.
     emit (St_plotly_chart \<lparr>fig_kind = Bar,
              fig_title = ''Product Type Distribution - Top Characters'', fig_data = s,
              fig_args = [(''x'', ''series_character''), (''y'', ''quantity''),
                          (''color'', ''product_type''), (''barmode'', ''stack''),
                          (''height'', ''400'')]\<rparr>))))))))))))))))))))))))"

definition create_detailed_analysis :: "nat \<Rightarrow> unit prog" where
  "create_detailed_analysis df =
     pbind (emit (St_markdown ''Detailed Analysis'')) (\<lambda>_.
     pbind (get_table df) (\<lambda>t.
     pbind (alloc (Derived (reset_index [''series_character'']
                      (groupby_sum [series_character] t)))) (\<lambda>series_sales.
     pbind (get_dframe series_sales) (\<lambda>d.
     pbind (alloc (Derived (head 10 (sort_values 1 False d)))) (\<lambda>series_sales'.
     pbind (get_dframe series_sales') (\<lambda>d'.
     pbind (emit (St_plotly_chart \<lparr>fig_kind = Pie, fig_title = ''Top 10 Series by Sales'',
              fig_data = d',
              fig_args = [(''values'', ''quantity''), (''names'', ''series_character''),
                          (''hole'', ''0.4'')]\<rparr>)) (\<lambda>_.
     pbind (get_table df) (\<lambda>t.
     pbind (alloc (Derived (reset_index [''product_type'', ''event_type'']
                      (groupby_sum [product_type, event_type] t)))) (\<lambda>product_dist.
     pbind (get_dframe product_dist) (\<lambda>pd.
     emit (St_plotly_chart \<lparr>fig_kind = Sunburst,
              fig_title = ''Product Distribution by Event Type'', fig_data = pd,
              fig_args = [(''path'', ''event_type, product_type''),
                          (''values'', ''quantity'')]\<rparr>)))))))))))"

section \<open>main\<close>

text \<open>
  What the user does in one interaction: for each of the six dropdowns, the position of
  the option picked. \<open>st.sidebar.selectbox\<close> renders the options and returns the one at
  that position (the first one, "All", for a position the list does not have).
\<close>

record choices =
  ch_location :: nat
  ch_event :: nat
  ch_day :: nat
  ch_anime :: nat
  ch_character :: nat
  ch_product :: nat

record selection =
  selected_location :: cell
  selected_event :: cell
  selected_day :: cell
  selected_anime :: cell
  selected_character :: cell
  selected_product :: cell

definition option_at :: "cell list \<Rightarrow> nat \<Rightarrow> cell" where
  "option_at options i =
     (if i < length options then options ! i
      else (case options of [] \<Rightarrow> NaN | x # _ \<Rightarrow> x))"

definition selectbox :: "string \<Rightarrow> cell list \<Rightarrow> nat \<Rightarrow> cell prog" where
  "selectbox label options i =
     pbind (emit (St_selectbox label options (option_at options i))) (\<lambda>_.
     ret (option_at options i))"

text \<open>\<open>['All'] + sorted(values)\<close>.\<close>

definition all_plus_sorted :: "cell list \<Rightarrow> cell list prog" where
  "all_plus_sorted xs =
     (case py_sorted xs of Inl e \<Rightarrow> raise_err e | Inr ys \<Rightarrow> ret (Str ''All'' # ys))"

text \<open>The sidebar: the six dropdowns, in the order of the script.\<close>

definition sidebar_filters :: "nat \<Rightarrow> choices \<Rightarrow> selection prog" where
  "sidebar_filters df ch =
     pbind (emit (St_sidebar_header ''Filters'')) (\<lambda>_.
     pbind (column df location) (\<lambda>c.
     pbind (all_plus_sorted (unique c)) (\<lambda>locations.
     pbind (selectbox ''Select Location'' locations (ch_location ch)) (\<lambda>sel_location.
     pbind (column df event_type) (\<lambda>c.
     pbind (all_plus_sorted (unique c)) (\<lambda>event_types.
     pbind (selectbox ''Select Event Type'' event_types (ch_event ch)) (\<lambda>sel_event.
     pbind (column df day) (\<lambda>c.
     pbind (all_plus_sorted (unique c)) (\<lambda>days.
     pbind (selectbox ''Select Day'' days (ch_day ch)) (\<lambda>sel_day.
     pbind (column df series_character) (\<lambda>c.
     pbind (all_plus_sorted (filter shown_choice (unique c))) (\<lambda>anime_series.
     pbind (selectbox ''Select Anime/Series'' anime_series (ch_anime ch)) (\<lambda>sel_anime.
     pbind (if sel_anime \<noteq> Str ''All''
            then pbind (get_table df) (\<lambda>t.
                 pbind (alloc (Sales (select_eq series_character sel_anime t))) (\<lambda>of_series.
                 pbind (column of_series character_variant) (\<lambda>available_variants.
                 all_plus_sorted (filter shown_choice (unique available_variants)))))
            else pbind (column df character_variant) (\<lambda>c.
                 all_plus_sorted (filter shown_choice (unique c)))) (\<lambda>character_variants.
     pbind (selectbox ''Select Character'' character_variants (ch_character ch)) (\<lambda>sel_character.
     pbind (column df product_type) (\<lambda>c.
     pbind (all_plus_sorted (unique c)) (\<lambda>products.
     pbind (selectbox ''Select Product Type'' products (ch_product ch)) (\<lambda>sel_product.
     ret \<lparr>selected_location = sel_location, selected_event = sel_event,
          selected_day = sel_day, selected_anime = sel_anime,
          selected_character = sel_character, selected_product = sel_product\<rparr>))))))))))))))))))"

text \<open>
  One \<open>if selected != 'All'\<close> block: the filtered view becomes a new frame holding the rows
  of the old one whose cell equals the selection, and the filter is noted as active.
\<close>

definition filter_step :: "(row \<Rightarrow> cell) \<Rightarrow> string \<Rightarrow> cell \<Rightarrow> nat \<times> string list
    \<Rightarrow> (nat \<times> string list) prog" where
  "filter_step col label selected st =
     (if selected \<noteq> Str ''All''
      then pbind (get_table (fst st)) (\<lambda>t.
           pbind (alloc (Sales (select_eq col selected t))) (\<lambda>filtered_df.
           ret (filtered_df, snd st @ [label @ '': '' @ py_str selected])))
      else ret st)"

definition apply_filters :: "nat \<Rightarrow> selection \<Rightarrow> (nat \<times> string list) prog" where
  "apply_filters df sel =
     pbind (get_table df) (\<lambda>t.
     pbind (alloc (Sales t)) (\<lambda>filtered_df.
     pbind (filter_step location ''Location'' (selected_location sel) (filtered_df, [])) (\<lambda>st.
     pbind (filter_step event_type ''Event'' (selected_event sel) st) (\<lambda>st.
     pbind (filter_step day ''Day'' (selected_day sel) st) (\<lambda>st.
     pbind (filter_step series_character ''Series'' (selected_anime sel) st) (\<lambda>st.
     pbind (filter_step character_variant ''Character'' (selected_character sel) st) (\<lambda>st.
     filter_step product_type ''Product'' (selected_product sel) st)))))))"

definition show_active_filters :: "string list \<Rightarrow> unit prog" where
  "show_active_filters active_filters =
     (if active_filters \<noteq> []
      then pbind (emit (St_markdown ''Active Filters'')) (\<lambda>_.
           emit (St_info (join_with '' | '' active_filters)))
      else emit (St_success ''Showing all data - no filters applied''))"

text \<open>\<open>st.download_button\<close> with the CSV text of the frame at the address as its data.\<close>

definition st_download_button :: "string \<Rightarrow> nat \<Rightarrow> string \<Rightarrow> unit prog" where
  "st_download_button label a file_name w =
     emit (St_download_button label (frame_at w a) file_name) w"

text \<open>
  The summary statistics of the export: per (location, event type) group the sum, mean,
  sample standard deviation, minimum and maximum of the quantities, rounded to two decimals.
\<close>

definition summary_rows :: "table \<Rightarrow> val list list" where
  "summary_rows t =
     map (\<lambda>(k, rs). map TextV k @
            map round2 [IntV (sum_i64 (map quantity rs)), mean (map quantity rs),
                        std (map quantity rs), min_q (map quantity rs), max_q (map quantity rs)])
       (groupby [location, event_type] t)"

text \<open>
  Everything after the empty check, in the order of the script and under the script's own
  headings: the four overview charts, the treemap of top characters, the data insights
  with the data quality metrics, the raw data, and the export options.
\<close>

definition sales_overview :: "nat \<Rightarrow> unit prog" where
  "sales_overview filtered_df =
     pbind (emit (St_markdown ''Sales Overview'')) (\<lambda>_.
     pbind (create_sales_by_location filtered_df) (\<lambda>fig1.
     pbind (emit (St_plotly_chart fig1)) (\<lambda>_.
     pbind (create_daily_performance filtered_df) (\<lambda>fig2.
     pbind (emit (St_plotly_chart fig2)) (\<lambda>_.
     pbind (create_event_comparison filtered_df) (\<lambda>fig3.
     pbind (emit (St_plotly_chart fig3)) (\<lambda>_.
     pbind (create_product_performance filtered_df) (\<lambda>fig4.
     emit (St_plotly_chart fig4)))))))))"

definition character_overview :: "nat \<Rightarrow> unit prog" where
  "character_overview filtered_df =
     pbind (emit (St_markdown ''Character Sales Overview'')) (\<lambda>_.
     pbind (create_top_characters filtered_df) (\<lambda>fig5.
     emit (St_plotly_chart fig5)))"

definition data_insights :: "nat \<Rightarrow> unit prog" where
  "data_insights filtered_df =
     pbind (emit (St_expander ''Data Insights & Pricing Information'')) (\<lambda>_.
     pbind (emit (St_markdown ''Current Data Overview; Adding Pricing Data; Suggested CSV Enhancements'')) (\<lambda>_.
     pbind (emit (St_markdown ''Current Data Quality'')) (\<lambda>_.
     pbind (column filtered_df character_variant) (\<lambda>c.
     pbind (emit (St_metric ''Missing Character Names''
              (IntV (int (length (filter (\<lambda>x. x = NaN) c)))))) (\<lambda>_.
     pbind (column filtered_df quantity) (\<lambda>q.
     pbind (emit (St_metric ''Zero Quantity Records''
              (IntV (int (length (filter (\<lambda>x. x = 0) q)))))) (\<lambda>_.
     pbind (get_table filtered_df) (\<lambda>t.
     emit (St_metric ''Unique Items''
             (IntV (int (length (groupby [series_character, character_variant, product_type] t)))))))))))))"

definition raw_data :: "nat \<Rightarrow> unit prog" where
  "raw_data filtered_df =
     pbind (emit (St_expander ''View Raw Data'')) (\<lambda>_.
     st_dataframe filtered_df)"

definition export_options :: "nat \<Rightarrow> selection \<Rightarrow> unit prog" where
  "export_options filtered_df sel =
     pbind (emit (St_markdown ''Export Options'')) (\<lambda>_.
     pbind (st_download_button ''Download Filtered Data as CSV'' filtered_df
              (''convention_sales_filtered_'' @ py_str (selected_location sel) @ ''_'' @
               py_str (selected_event sel) @ ''.csv'')) (\<lambda>_.
     pbind (get_table filtered_df) (\<lambda>t.
     pbind (alloc (Derived \<lparr>columns = [''location'', ''event_type'', ''sum'', ''mean'', ''std'',
                ''min'', ''max''], drows = summary_rows t\<rparr>)) (\<lambda>summary_stats.
     st_download_button ''Download Summary Statistics'' summary_stats
       ''sales_summary_statistics.csv''))))"

definition render :: "nat \<Rightarrow> selection \<Rightarrow> unit prog" where
  "render filtered_df sel =
     pbind (create_overview_metrics filtered_df) (\<lambda>_.
     pbind (sales_overview filtered_df) (\<lambda>_.
     pbind (character_overview filtered_df) (\<lambda>_.
     pbind (create_character_analysis filtered_df) (\<lambda>_.
     pbind (create_detailed_analysis filtered_df) (\<lambda>_.
     pbind (data_insights filtered_df) (\<lambda>_.
     pbind (raw_data filtered_df) (\<lambda>_.
     export_options filtered_df sel)))))))"

text \<open>The empty check: a warning, then \<open>st.stop()\<close>.\<close>

definition stop_if_empty :: "nat \<Rightarrow> unit prog" where
  "stop_if_empty filtered_df =
     pbind (get_table filtered_df) (\<lambda>t.
     if t = []
     then pbind (emit (St_warning no_match_msg)) (\<lambda>_.
          st_stop)
     else ret ())"

text \<open>
  \<open>main\<close>, in two parts. The first runs from the header to the end of the filters: it
  loads the table, renders the sidebar and derives the filtered view, and yields the
  selections, the address of the filtered view and the active filters.
\<close>

definition filtered_view :: "choices \<Rightarrow> (selection \<times> nat \<times> string list) prog" where
  "filtered_view ch =
     pbind (emit (St_markdown ''Convention Sales Dashboard'')) (\<lambda>_.
     pbind load_data (\<lambda>df.
     pbind (sidebar_filters df ch) (\<lambda>sel.
     pbind (apply_filters df sel) (\<lambda>st.
     ret (sel, st)))))"

definition main :: "choices \<Rightarrow> unit prog" where
  "main ch =
     pbind (filtered_view ch) (\<lambda>v.
     pbind (show_active_filters (snd (snd v))) (\<lambda>_.
     pbind (stop_if_empty (fst (snd v))) (\<lambda>_.
     render (fst (snd v)) (fst v))))"

section \<open>Notions of the statements\<close>

text \<open>The result of a step, with the elements rendered before it put in front.\<close>

definition prefixed :: "ui list \<Rightarrow> 'a res \<times> ui list \<times> world \<Rightarrow> 'a res \<times> ui list \<times> world" where
  "prefixed pre p = (case p of (r, out, w) \<Rightarrow> (r, pre @ out, w))"

text \<open>
  A step that leaves the file, the generator and the cache alone and every dataframe
  object that existed before it as it was: all it may do to the store is add new objects.
\<close>

definition only_new_frames :: "world \<Rightarrow> world \<Rightarrow> bool" where
  "only_new_frames w w' =
     (csv_file w' = csv_file w \<and> entropy w' = entropy w \<and> cache w' = cache w \<and>
      length (heap w) \<le> length (heap w') \<and> take (length (heap w)) (heap w') = heap w)"

text \<open>
  A categorical cell as the CSV reader can yield it: missing, or a text that is neither
  empty nor the marker \<open>nan\<close>; a table of such cells; and a cache that holds nothing
  or what an earlier \<open>load_data\<close> stored.
\<close>

definition read_cell :: "cell \<Rightarrow> bool" where
  "read_cell c = (c = NaN \<or> shown_choice c)"

definition as_read :: "table \<Rightarrow> bool" where
  "as_read t =
     list_all (\<lambda>r. read_cell (sheet_name r) \<and> read_cell (location r) \<and> read_cell (day r) \<and>
                  read_cell (event_type r) \<and> read_cell (series_character r) \<and>
                  read_cell (character_variant r) \<and> read_cell (product_type r)) t"

definition cache_ok :: "world \<Rightarrow> bool" where
  "cache_ok w =
     (case cache w of
        None \<Rightarrow> True
      | Some (t, msgs) \<Rightarrow>
          as_read t \<and> (msgs = [] \<or> msgs = [St_error not_found_msg, St_warning sample_msg]))"

text \<open>A row passes the selections: each one is "All" or equals the row's cell.\<close>

definition passes :: "selection \<Rightarrow> row \<Rightarrow> bool" where
  "passes sel r =
     ((selected_location sel = Str ''All'' \<or> eq_cell (location r) (selected_location sel)) \<and>
      (selected_event sel = Str ''All'' \<or> eq_cell (event_type r) (selected_event sel)) \<and>
      (selected_day sel = Str ''All'' \<or> eq_cell (day r) (selected_day sel)) \<and>
      (selected_anime sel = Str ''All'' \<or> eq_cell (series_character r) (selected_anime sel)) \<and>
      (selected_character sel = Str ''All'' \<or> eq_cell (character_variant r) (selected_character sel)) \<and>
      (selected_product sel = Str ''All'' \<or> eq_cell (product_type r) (selected_product sel)))"

text \<open>
  The elements that show data: cards, metrics, tables, charts and download buttons; and
  the download buttons alone.
\<close>

fun is_output :: "ui \<Rightarrow> bool" where
  "is_output (St_card l vs) = True"
| "is_output (St_metric l v) = True"
| "is_output (St_dataframe fr) = True"
| "is_output (St_plotly_chart fg) = True"
| "is_output (St_download_button l fr n) = True"
| "is_output u = False"

fun is_download :: "ui \<Rightarrow> bool" where
  "is_download (St_download_button l fr n) = True"
| "is_download u = False"

text \<open>
  Two properties of a program, whatever the state it starts in and however it ends: it
  only adds new objects to the store; every element it renders satisfies \<open>P\<close>.
\<close>

definition framed :: "'a prog \<Rightarrow> bool" where
  "framed m = (\<forall>w. only_new_frames w (snd (snd (m w))))"

definition emits :: "(ui \<Rightarrow> bool) \<Rightarrow> 'a prog \<Rightarrow> bool" where
  "emits P m = (\<forall>w. list_all P (fst (snd (m w))))"

text \<open>A program that returns a value in every state: it neither raises nor stops.\<close>

definition returns :: "'a prog \<Rightarrow> bool" where
  "returns m = (\<forall>w. \<exists>x. fst (m w) = Val x)"

text \<open>
  A table without negative quantities; a value that is a number and not negative (a
  missing value is no number); and what holds of the statistics of a list of quantities
  that are not negative: the mean, the minimum and the maximum of a list that is not empty
  are numbers that are not negative, also after \<open>.round(2)\<close>; the standard deviation
  is missing for fewer than two quantities, and is never a negative number.
\<close>

definition nonneg :: "table \<Rightarrow> bool" where
  "nonneg t = list_all (\<lambda>r. 0 \<le> quantity r) t"

fun nonneg_num :: "val \<Rightarrow> bool" where
  "nonneg_num (IntV i) = (0 \<le> i)"
| "nonneg_num (RealV x) = (0 \<le> x)"
| "nonneg_num v = False"

definition stats_nonneg :: "int list \<Rightarrow> bool" where
  "stats_nonneg qs =
     ((qs \<noteq> [] \<longrightarrow>
         nonneg_num (mean qs) \<and> nonneg_num (round2 (mean qs)) \<and>
         nonneg_num (min_q qs) \<and> nonneg_num (round2 (min_q qs)) \<and>
         nonneg_num (max_q qs) \<and> nonneg_num (round2 (max_q qs))) \<and>
      (length qs < 2 \<longrightarrow> std qs = NanV \<and> round2 (std qs) = NanV) \<and>
      (std qs = NanV \<or> nonneg_num (std qs)) \<and>
      (round2 (std qs) = NanV \<or> nonneg_num (round2 (std qs))))"

text \<open>
  A quantity column of 64-bit signed integers: what the reader yields when every quantity
  of the file lies in that range, and the column that the sums below are the sums of.
\<close>

definition int64_column :: "int list \<Rightarrow> bool" where
  "int64_column qs = list_all (\<lambda>q. - (2 ^ 63) \<le> q \<and> q < 2 ^ 63) qs"






section \<open>Sample inputs\<close>

text \<open>A small CSV file and the state of a fresh process that finds it.\<close>

definition ex_line :: csv_line where
  "ex_line = \<lparr>f_sheet_name = ''MEGA LDN SAT'', f_location = ''London'', f_day = ''Saturday'',
     f_event_type = ''Mega'', f_series_character = ''JJK'', f_character_variant = ''Fish'',
     f_product_type = ''Bag'', f_quantity = 1\<rparr>"

definition ex_lines :: "csv_line list" where
  "ex_lines = [ex_line, ex_line\<lparr>f_location := ''Paris'', f_quantity := 5\<rparr>,
               ex_line\<lparr>f_character_variant := '''', f_quantity := 2\<rparr>]"

definition ex_world :: world where
  "ex_world = \<lparr>csv_file = Some ex_lines, entropy = (\<lambda>i. i), cache = None, heap = []\<rparr>"

definition ex_loaded :: world where
  "ex_loaded = ex_world\<lparr>heap := [Sales (read_csv ex_lines)]\<rparr>"

text \<open>The user picks the second location, London, and leaves the other dropdowns at "All".\<close>

definition ex_choice :: choices where
  "ex_choice = \<lparr>ch_location = 1, ch_event = 0, ch_day = 0, ch_anime = 0, ch_character = 0,
                 ch_product = 0\<rparr>"

definition ex_sel :: selection where
  "ex_sel = \<lparr>selected_location = Str ''London'', selected_event = Str ''All'',
              selected_day = Str ''All'', selected_anime = Str ''All'',
              selected_character = Str ''All'', selected_product = Str ''All''\<rparr>"

text \<open>
  Further choices and states: the user picks the first series; nothing is picked; a file
  whose only record has no location; a file where one of two records has no location; a
  process that finds no file; and that process after its first \<open>load_data\<close>, once the
  file has been put in place.
\<close>

definition ex_series_choice :: choices where
  "ex_series_choice = \<lparr>ch_location = 0, ch_event = 0, ch_day = 0, ch_anime = 1, ch_character = 0,
                 ch_product = 0\<rparr>"

definition ex_all_choice :: choices where
  "ex_all_choice = \<lparr>ch_location = 0, ch_event = 0, ch_day = 0, ch_anime = 0, ch_character = 0,
                 ch_product = 0\<rparr>"

definition ex_missing_world :: world where
  "ex_missing_world = ex_world\<lparr>csv_file := Some [ex_line\<lparr>f_location := ''''\<rparr>]\<rparr>"

definition ex_mixed_world :: world where
  "ex_mixed_world = ex_world\<lparr>csv_file := Some [ex_line\<lparr>f_location := ''''\<rparr>, ex_line]\<rparr>"

definition ex_nofile_world :: world where
  "ex_nofile_world = ex_world\<lparr>csv_file := None\<rparr>"

definition ex_late_world :: world where
  "ex_late_world = (snd (snd (load_data ex_nofile_world)))\<lparr>csv_file := Some ex_lines\<rparr>"

text \<open>Another state, which holds the same table at another address.\<close>

definition ex_other :: world where
  "ex_other = \<lparr>csv_file = None, entropy = (\<lambda>i. 7), cache = Some ([], []),
               heap = [Derived \<lparr>columns = [], drows = []\<rparr>, Sales (read_csv ex_lines)]\<rparr>"

text \<open>
  A file with a bag sold in London and a pin sold in Paris; the user picks London and Pin.
\<close>

definition ex_two_world :: world where
  "ex_two_world = ex_world\<lparr>csv_file :=
      Some [ex_line, ex_line\<lparr>f_location := ''Paris'', f_product_type := ''Pin''\<rparr>]\<rparr>"

definition ex_empty_choice :: choices where
  "ex_empty_choice = \<lparr>ch_location = 1, ch_event = 0, ch_day = 0, ch_anime = 0, ch_character = 0,
                 ch_product = 2\<rparr>"



text \<open>A file whose only record has the quantity -3, and one with two sales of \<open>2 ^ 62\<close> pieces.\<close>

definition ex_refund_world :: world where
  "ex_refund_world = ex_world\<lparr>csv_file := Some [ex_line\<lparr>f_quantity := - 3\<rparr>]\<rparr>"

definition ex_huge_world :: world where
  "ex_huge_world = ex_world\<lparr>csv_file :=
      Some [ex_line\<lparr>f_quantity := 2 ^ 62\<rparr>, ex_line\<lparr>f_quantity := 2 ^ 62\<rparr>]\<rparr>"

text \<open>The table of two sales of \<open>2 ^ 62\<close> pieces in London, loaded at address 0.\<close>

definition ex_huge_loaded :: world where
  "ex_huge_loaded = ex_world\<lparr>heap :=
      [Sales (read_csv [ex_line\<lparr>f_quantity := 2 ^ 62\<rparr>, ex_line\<lparr>f_quantity := 2 ^ 62\<rparr>])]\<rparr>"





section \<open>Floating-point rounding\<close>

lemma round_half_even_int [simp]: "round_half_even (of_int n) = n"
  by (simp add: round_half_even_def)

lemma round_half_even_nonneg: "0 \<le> y \<Longrightarrow> 0 \<le> round_half_even y"
  by (auto simp: round_half_even_def Let_def)

lemma fl64_nonneg: "0 \<le> x \<Longrightarrow> 0 \<le> fl64 x"
  by (auto simp: fl64_def Let_def intro!: mult_nonneg_nonneg round_half_even_nonneg)

lemma powr_neg_nat: "(2::real) powr (- real n) = 1 / 2 ^ n"
  by (simp add: powr_minus powr_realpow divide_simps)

lemma floor_log2_up:
  assumes "2 ^ k \<le> \<bar>x\<bar>" "\<bar>x\<bar> < 2 ^ Suc k"
  shows "\<lfloor>log 2 \<bar>x\<bar>\<rfloor> = int k"
proof -
  have pos: "0 < \<bar>x\<bar>" using assms(1) by (smt (verit) zero_less_power)
  have "2 powr (of_int (int k)) \<le> \<bar>x\<bar>" using assms(1) by (simp add: powr_realpow)
  moreover have "\<bar>x\<bar> < 2 powr (of_int (int k + 1))"
    using assms(2) by (simp add: powr_realpow powr_add)
  ultimately show ?thesis using pos by (simp add: floor_log_eq_powr_iff)
qed

lemma floor_log2_down:
  assumes "1 / 2 ^ k \<le> \<bar>x\<bar>" "\<bar>x\<bar> < 2 / 2 ^ k"
  shows "\<lfloor>log 2 \<bar>x\<bar>\<rfloor> = - int k"
proof -
  have pos: "0 < \<bar>x\<bar>" using assms(1) by (smt (verit) zero_less_power divide_pos_pos)
  have "2 powr (of_int (- int k)) \<le> \<bar>x\<bar>"
    using assms(1) by (simp add: powr_minus powr_realpow divide_simps)
  moreover have "\<bar>x\<bar> < 2 powr (of_int (- int k + 1))"
  proof -
    have "(2::real) powr (of_int (- int k + 1)) = 2 powr 1 / 2 powr (real k)"
      using powr_diff[of 2 1 "real k"] by simp
    then show ?thesis using assms(2) by (simp add: powr_realpow)
  qed
  ultimately show ?thesis using pos by (simp add: floor_log_eq_powr_iff)
qed

lemma fl64_up:
  assumes "2 ^ k \<le> \<bar>x\<bar>" "\<bar>x\<bar> < 2 ^ Suc k" "k \<le> 52"
  shows "fl64 x = of_int (round_half_even (x * 2 ^ (52 - k))) / 2 ^ (52 - k)"
proof -
  have nz: "x \<noteq> 0" using assms(1) by (smt (verit) zero_less_power)
  have "(2::real) powr (of_int (int k) - 52) = 1 / 2 ^ (52 - k)"
  proof -
    have "real_of_int (int k) - 52 = - real (52 - k)" using assms(3) by simp
    then show ?thesis by (simp only: powr_neg_nat)
  qed
  then show ?thesis using nz by (simp add: fl64_def floor_log2_up[OF assms(1,2)])
qed

lemma fl64_down:
  assumes "1 / 2 ^ k \<le> \<bar>x\<bar>" "\<bar>x\<bar> < 2 / 2 ^ k"
  shows "fl64 x = of_int (round_half_even (x * 2 ^ (52 + k))) / 2 ^ (52 + k)"
proof -
  have nz: "x \<noteq> 0" using assms(1) by (smt (verit) zero_less_power divide_pos_pos)
  have "(2::real) powr (of_int (- int k) - 52) = 1 / 2 ^ (52 + k)"
  proof -
    have "real_of_int (- int k) - 52 = - real (52 + k)" by simp
    then show ?thesis by (simp only: powr_neg_nat)
  qed
  then show ?thesis using nz by (simp add: fl64_def floor_log2_down[OF assms(1,2)])
qed


lemma fl64_tie: "fl64 (23 / 40) = 5179139571476070 / 9007199254740992"
  using fl64_down[of 1 "23 / 40"] by (simp add: round_half_even_def)

lemma fl64_0 [simp]: "fl64 0 = 0"
  by (simp add: fl64_def)

lemma fl64_int:
  assumes "\<bar>n\<bar> < 2 ^ 53"
  shows "fl64 (real_of_int n) = real_of_int n"
proof (cases "n = 0")
  case True
  then show ?thesis by simp
next
  case False
  then have "1 \<le> nat \<bar>n\<bar>" by simp
  from ex_power_ivl1[OF _ this, of 2] obtain k where
    k: "2 ^ k \<le> nat \<bar>n\<bar>" "nat \<bar>n\<bar> < 2 ^ (k + 1)" by auto
  have lo: "(2::real) ^ k \<le> \<bar>real_of_int n\<bar>"
  proof -
    have "real (2 ^ k) \<le> real (nat \<bar>n\<bar>)" using k(1) by (rule of_nat_mono)
    then show ?thesis by simp
  qed
  have hi: "\<bar>real_of_int n\<bar> < 2 ^ Suc k"
  proof -
    have "real (nat \<bar>n\<bar>) < real (2 ^ (k + 1))" using k(2) by (rule of_nat_less_iff[THEN iffD2])
    then show ?thesis by simp
  qed
  have "(2::int) ^ k < 2 ^ 53"
  proof -
    have "(2::int) ^ k \<le> \<bar>n\<bar>" using k(1) by (simp add: le_nat_iff)
    with assms show ?thesis by linarith
  qed
  then have "k < 53" by (rule power_less_imp_less_exp[rotated]) simp
  then have k52: "k \<le> 52" by simp
  have "real_of_int n * 2 ^ (52 - k) = real_of_int (n * 2 ^ (52 - k))" by simp
  then show ?thesis unfolding fl64_up[OF lo hi k52] by (simp only: round_half_even_int) simp
qed

lemma fl64_1 [simp]: "fl64 1 = 1"
  using fl64_int[of 1] by simp

lemma fl64_numeral_int: "numeral w < (2::int) ^ 53 \<Longrightarrow> fl64 (numeral w) = numeral w"
  using fl64_int[of "numeral w"] by simp






lemma round2_int_valued:
  assumes "\<bar>n\<bar> * 100 < 2 ^ 53"
  shows "round2 (RealV (real_of_int n)) = RealV (real_of_int n)"
proof -
  have 1: "fl64 (real_of_int n * 100) = real_of_int (n * 100)"
    using assms fl64_int[of "n * 100"] by (simp add: abs_mult)
  have 2: "real_of_int (n * 100) / 100 = real_of_int n" by simp
  have 3: "fl64 (real_of_int n) = real_of_int n"
    using assms by (intro fl64_int) linarith
  show ?thesis unfolding round2.simps 1 round_half_even_int 2 3 ..
qed

lemma mean_single: "\<bar>q\<bar> * 100 < 2 ^ 53 \<Longrightarrow> round2 (mean [q]) = RealV (real_of_int q)"
proof -
  assume a: "\<bar>q\<bar> * 100 < 2 ^ 53"
  then have "fl64 (real_of_int q) = real_of_int q" by (intro fl64_int) linarith
  then show ?thesis using round2_int_valued[OF a] by (simp add: mean_def)
qed



lemma round2_tie: "round2 (mean (replicate 23 1 @ replicate 17 0)) = RealV (fl64 (57 / 100))"
proof -
  have m: "mean (replicate 23 1 @ replicate 17 0) = RealV (fl64 (23 / 40))"
    by (simp add: mean_def sum_list_replicate)
  have a: "fl64 (5179139571476070 / 9007199254740992 * 100) = 8092405580431359 / 140737488355328"
    using fl64_up[of 5 "5179139571476070 / 9007199254740992 * 100"]
    by (simp add: round_half_even_def)
  have b: "round_half_even (8092405580431359 / 140737488355328) = 57"
    by (simp add: round_half_even_def)
  show ?thesis unfolding m round2.simps fl64_tie a b by simp
qed












section \<open>Grouping\<close>

lemma upsert_keys: "set (map fst (upsert k v acc)) = insert k (set (map fst acc))"
  by (induction k v acc rule: upsert.induct) auto

lemma upsert_sorted:
  "sorted_wrt (<) (map fst acc) \<Longrightarrow> sorted_wrt (<) (map fst (upsert k v acc))"
proof (induction k v acc rule: upsert.induct)
  case (1 k v)
  then show ?case by simp
next
  case (2 k v k' vs rest)
  have "set (map fst (upsert k v rest)) = insert k (set (map fst rest))"
    by (rule upsert_keys)
  with 2 show ?case by (auto simp: less_le)
qed

lemma map_of_sorted_less:
  "sorted_wrt (<) (map fst acc) \<Longrightarrow> \<forall>x\<in>set (map fst acc). (k::'k::linorder) < x \<Longrightarrow> map_of acc k = None"
  by (induction acc) auto

lemma upsert_lookup:
  "sorted_wrt (<) (map fst acc) \<Longrightarrow>
   map_of (upsert k v acc) q =
     (if q = k then Some ((case map_of acc k of None \<Rightarrow> [] | Some vs \<Rightarrow> vs) @ [v])
      else map_of acc q)"
proof (induction k v acc rule: upsert.induct)
  case (1 k v)
  then show ?case by simp
next
  case (2 k v k' vs rest)
  show ?case
  proof (cases "k = k'")
    case True
    then show ?thesis by simp
  next
    case False
    show ?thesis
    proof (cases "k < k'")
      case True
      have "\<forall>x\<in>set (map fst rest). k < x" using 2(2) True by auto
      then have "map_of rest k = None"
        using 2(2) by (intro map_of_sorted_less) auto
      with True False show ?thesis by auto
    next
      case nless: False
      with False 2 show ?thesis by auto
    qed
  qed
qed

lemma fold_group_step_sorted:
  "sorted_wrt (<) (map fst acc) \<Longrightarrow> sorted_wrt (<) (map fst (fold (group_step cols) df acc))"
  by (induction df arbitrary: acc) (auto simp: group_step_def upsert_sorted split: option.splits)

lemma fold_group_step_lookup:
  "sorted_wrt (<) (map fst acc) \<Longrightarrow>
   map_of (fold (group_step cols) df acc) k =
     (let new = filter (\<lambda>r. key_of cols r = Some k) df
      in case map_of acc k of
           None \<Rightarrow> (if new = [] then None else Some new)
         | Some old \<Rightarrow> Some (old @ new))"
proof (induction df arbitrary: acc)
  case Nil
  then show ?case by (simp split: option.splits)
next
  case (Cons r df)
  show ?case
  proof (cases "key_of cols r")
    case None
    with Cons show ?thesis by (simp add: group_step_def)
  next
    case (Some k')
    have s: "sorted_wrt (<) (map fst (upsert k' r acc))"
      using Cons.prems by (rule upsert_sorted)
    show ?thesis
      using Cons.IH[OF s] Some Cons.prems
      by (auto simp: group_step_def upsert_lookup Let_def split: option.splits)
  qed
qed

lemma groupby_sorted: "sorted_wrt (<) (map fst (groupby cols df))"
  unfolding groupby_def by (rule fold_group_step_sorted) simp

lemma groupby_distinct: "distinct (map fst (groupby cols df))"
  using groupby_sorted[of cols df] by (simp add: strict_sorted_iff)

lemma groupby_lookup:
  "map_of (groupby cols df) k =
     (if filter (\<lambda>r. key_of cols r = Some k) df = [] then None
      else Some (filter (\<lambda>r. key_of cols r = Some k) df))"
  unfolding groupby_def by (subst fold_group_step_lookup) (simp_all add: Let_def)

lemma key_of_single: "key_of [c] r = Some k \<longleftrightarrow> (\<exists>g. k = [g] \<and> c r = Str g)"
  by (auto split: cell.splits)

section \<open>Effects of the steps\<close>

lemmas prog_defs = ret_def pbind_def emit_def raise_err_def st_stop_def alloc_def get_table_def
  get_dframe_def column_def

lemma frame_at_append_new [simp]:
  "frame_at (w\<lparr>heap := heap w @ [fr]\<rparr>) (length (heap w)) = fr"
  by (simp add: frame_at_def)

lemma table_at_append_old [simp]:
  "a < length (heap w) \<Longrightarrow> frame_at (w\<lparr>heap := heap w @ frs\<rparr>) a = frame_at w a"
  by (simp add: frame_at_def nth_append)

lemma create_sales_by_location_eq:
  "create_sales_by_location df w =
     (Val \<lparr>fig_kind = Bar, fig_title = ''Sales by Location'',
           fig_data = reset_index [''location''] (groupby_sum [location] (table_at w df)),
           fig_args = [(''x'', ''location''), (''y'', ''quantity''), (''color'', ''quantity''),
                      (''color_continuous_scale'', ''viridis''), (''height'', ''400'')]\<rparr>,
      [],
      w\<lparr>heap := heap w @ [Derived (reset_index [''location''] (groupby_sum [location] (table_at w df)))]\<rparr>)"
  by (simp add: create_sales_by_location_def prog_defs dframe_at_def)

lemma filter_key_distinct:
  "distinct (map fst xs) \<Longrightarrow>
   filter (\<lambda>p. fst p = q) xs = (case map_of xs q of None \<Rightarrow> [] | Some v \<Rightarrow> [(q, v)])"
proof (induction xs)
  case Nil
  then show ?case by simp
next
  case (Cons x xs)
  obtain k v where x: "x = (k, v)" by (cases x)
  show ?case
  proof (cases "k = q")
    case True
    with Cons.prems x have "q \<notin> fst ` set xs" by auto
    then have "filter (\<lambda>p. fst p = q) xs = []" by (auto simp: filter_empty_conv)
    with True x show ?thesis by simp
  next
    case False
    with Cons x show ?thesis by simp
  qed
qed

lemma groupby_key_witness:
  assumes "(k, rs) \<in> set (groupby cols df)"
  shows "rs = filter (\<lambda>r. key_of cols r = Some k) df \<and> rs \<noteq> []"
proof -
  have "map_of (groupby cols df) k = Some rs"
    using assms groupby_distinct by (simp add: map_of_is_SomeI)
  then show ?thesis by (simp add: groupby_lookup split: if_splits)
qed

lemma key_of_length: "key_of cols r = Some k \<Longrightarrow> length k = length cols"
  by (induction cols arbitrary: k) (auto split: cell.splits option.splits)

lemma groupby_key_length:
  assumes "(k, rs) \<in> set (groupby cols df)"
  shows "length k = length cols"
proof -
  from groupby_key_witness[OF assms]
  have "hd rs \<in> set (filter (\<lambda>r. key_of cols r = Some k) df)"
    by (metis hd_in_set)
  then have "key_of cols (hd rs) = Some k" by simp
  then show ?thesis by (rule key_of_length)
qed

lemma groupby_single_filter:
  "filter (\<lambda>p. hd (fst p) = g) (groupby [c] t) = filter (\<lambda>p. fst p = [g]) (groupby [c] t)"
proof (rule filter_cong[OF refl])
  fix p assume "p \<in> set (groupby [c] t)"
  then have "length (fst p) = 1" using groupby_key_length[of "fst p" "snd p" "[c]" t] by simp
  then show "(hd (fst p) = g) = (fst p = [g])"
    by (cases "fst p") auto
qed

lemma filter_groupby_sum_rows:
  "filter (\<lambda>r. nth_val r 0 = TextV g) (drows (reset_index [n] (groupby_sum [c] t))) =
     (case map_of (groupby [c] t) [g] of None \<Rightarrow> [] | Some rs \<Rightarrow> [[TextV g, IntV (sum_i64 (map quantity rs))]])"
proof -
  have "filter (\<lambda>r. nth_val r 0 = TextV g) (drows (reset_index [n] (groupby_sum [c] t))) =
        map (\<lambda>(k, rs). map TextV k @ [IntV (sum_i64 (map quantity rs))])
          (filter (\<lambda>p. hd (fst p) = g) (groupby [c] t))"
  proof -
    have "\<And>p. p \<in> set (groupby [c] t) \<Longrightarrow>
        (nth_val ((\<lambda>(k, rs). map TextV k @ [IntV (sum_i64 (map quantity rs))]) p) 0 = TextV g)
        = (hd (fst p) = g)"
    proof -
      fix p assume "p \<in> set (groupby [c] t)"
      then have "length (fst p) = 1" using groupby_key_length[of "fst p" "snd p" "[c]" t] by simp
      then obtain x where "fst p = [x]" by (cases "fst p") auto
      then show "(nth_val ((\<lambda>(k, rs). map TextV k @ [IntV (sum_i64 (map quantity rs))]) p) 0 = TextV g)
        = (hd (fst p) = g)"
        by (cases p) (simp add: nth_val_def)
    qed
    then show ?thesis
      by (simp add: reset_index_def groupby_sum_def filter_map comp_def split_def cong: filter_cong)
  qed
  also have "\<dots> = map (\<lambda>(k, rs). map TextV k @ [IntV (sum_i64 (map quantity rs))])
          (filter (\<lambda>p. fst p = [g]) (groupby [c] t))"
    by (simp add: groupby_single_filter)
  also have "\<dots> = (case map_of (groupby [c] t) [g] of None \<Rightarrow> []
                    | Some rs \<Rightarrow> [[TextV g, IntV (sum_i64 (map quantity rs))]])"
    by (simp add: filter_key_distinct[OF groupby_distinct] split: option.splits)
  finally show ?thesis .
qed

lemma eq_cell_Str [simp]: "eq_cell x (Str g) \<longleftrightarrow> x = Str g"
  by (cases x) auto

lemma key_of_single_filter:
  "filter (\<lambda>r. key_of [c] r = Some [g]) t = select_eq c (Str g) t"
  unfolding select_eq_def
  by (rule filter_cong[OF refl]) (auto split: cell.splits)

lemma select_eq_empty_iff: "select_eq c (Str g) t = [] \<longleftrightarrow> Str g \<notin> set (map c t)"
  by (auto simp: select_eq_def filter_empty_conv) (metis image_eqI)

lemma ex_table: "table_at ex_loaded 0 = read_csv ex_lines"
  by (simp add: ex_loaded_def table_at_def frame_at_def)

lemma only_new_frames_refl [simp]: "only_new_frames w w"
  by (simp add: only_new_frames_def)

lemma take_prefix_trans:
  assumes "length a \<le> length b" "take (length a) b = a" "take (length b) c = b"
  shows "take (length a) c = a"
proof -
  have "take (length a) c = take (length a) (take (length b) c)"
    using assms(1) by (simp add: min_def)
  then show ?thesis using assms by simp
qed

lemma only_new_frames_trans:
  "only_new_frames w w1 \<Longrightarrow> only_new_frames w1 w2 \<Longrightarrow> only_new_frames w w2"
  unfolding only_new_frames_def using take_prefix_trans by auto

lemma only_new_frames_append [simp]: "only_new_frames w (w\<lparr>heap := heap w @ frs\<rparr>)"
  by (simp add: only_new_frames_def)

lemma only_new_frames_frame_at:
  assumes "only_new_frames w w'" "a < length (heap w)"
  shows "frame_at w' a = frame_at w a"
proof -
  have "heap w' ! a = take (length (heap w)) (heap w') ! a"
    using assms(2) by simp
  also have "\<dots> = heap w ! a" using assms(1) by (simp add: only_new_frames_def)
  finally show ?thesis using assms by (simp add: frame_at_def only_new_frames_def)
qed

lemma pbind_Val: "m w = (Val x, o1, w1) \<Longrightarrow> pbind m f w = (case f x w1 of (r, o2, w2) \<Rightarrow> (r, o1 @ o2, w2))"
  by (simp add: pbind_def)


lemma py_repeat_length: "length (py_repeat xs n) = n * length xs"
  by (induction n) (simp_all add: py_repeat_def)


lemma py_repeat_nth: "i < n * length xs \<Longrightarrow> py_repeat xs n ! i = xs ! (i mod length xs)"
proof (induction n arbitrary: i)
  case 0
  then show ?case by simp
next
  case (Suc n)
  have t: "py_repeat xs (Suc n) = xs @ py_repeat xs n" by (simp add: py_repeat_def)
  show ?case
  proof (cases "i < length xs")
    case True
    then show ?thesis by (simp add: t nth_append)
  next
    case False
    then have "i - length xs < n * length xs" using Suc.prems by simp
    then have "py_repeat xs n ! (i - length xs) = xs ! ((i - length xs) mod length xs)"
      by (rule Suc.IH)
    with False show ?thesis by (simp add: t nth_append le_mod_geq)
  qed
qed

lemma same3: "[a, a, a] ! (i mod 3) = a"
proof -
  have "i mod 3 = 0 \<or> i mod 3 = 1 \<or> i mod 3 = 2" by presburger
  then show ?thesis by auto
qed

lemma load_data_body_present:
  "csv_file w = Some ls \<Longrightarrow>
   load_data_body w = (Val (length (heap w)), [], w\<lparr>heap := heap w @ [Sales (read_csv ls)]\<rparr>)"
  by (simp add: load_data_body_def alloc_def)

lemma load_data_body_missing:
  assumes "csv_file w = None"
  shows "\<exists>t. load_data_body w =
           (Val (length (heap w)), [St_error not_found_msg, St_warning sample_msg],
            w\<lparr>entropy := (\<lambda>i. entropy w (i + 150)), heap := heap w @ [Sales t]\<rparr>) \<and>
         length t = 150 \<and>
         (\<forall>i<150.
            sheet_name (t ! i) = [Str ''MEGA LDN SAT'', Str ''MEGA LDN SUN'', Str ''AL LDN SAT''] ! (i mod 3) \<and>
            location (t ! i) = Str ''London'' \<and>
            day (t ! i) = [Str ''Saturday'', Str ''Sunday'', Str ''Saturday''] ! (i mod 3) \<and>
            event_type (t ! i) = [Str ''Mega'', Str ''Mega'', Str ''AL''] ! (i mod 3) \<and>
            series_character (t ! i) = [Str ''JJK'', Str ''Frieren'', Str ''ACNH''] ! (i mod 3) \<and>
            character_variant (t ! i) = [Str ''Fish'', Str ''Frieren'', Str ''Blathers''] ! (i mod 3) \<and>
            product_type (t ! i) = [Str ''Bag'', Str ''Keyring'', Str ''Pin''] ! (i mod 3) \<and>
            quantity (t ! i) = 1 + int (entropy w i mod 19))"
  using assms
  apply (simp add: load_data_body_def prog_defs randint_def data_frame_def py_repeat_length)
  apply (rule exI, rule conjI, rule refl)
  apply (simp add: py_repeat_nth same3)
  done

lemma table_at_append_keep [simp]:
  "a < length (heap w) \<Longrightarrow> table_at (w\<lparr>heap := heap w @ frs\<rparr>) a = table_at w a"
  by (simp add: table_at_def)

lemma table_at_append_new [simp]:
  "table_at (w\<lparr>heap := heap w @ [Sales t]\<rparr>) (length (heap w)) = t"
  by (simp add: table_at_def)

lemma prefixed_tuple: "prefixed pre (r, out, w) = (r, pre @ out, w)"
  by (simp add: prefixed_def)

lemma prefixed_prefixed: "prefixed a (prefixed b p) = prefixed (a @ b) p"
  by (simp add: prefixed_def split: prod.splits)

lemma prefixed_Nil: "prefixed [] p = p"
  by (simp add: prefixed_def split: prod.splits)

lemma prefixed_sum: "prefixed pre (case s of Inl e \<Rightarrow> A e | Inr y \<Rightarrow> B y) =
    (case s of Inl e \<Rightarrow> prefixed pre (A e) | Inr y \<Rightarrow> prefixed pre (B y))"
  by (simp split: sum.splits)

lemma prefixed_if: "prefixed pre (if c then A else B) = (if c then prefixed pre A else prefixed pre B)"
  by simp

lemma emit_bind: "pbind (emit u) f w = prefixed [u] (f () w)"
  by (simp add: pbind_def emit_def prefixed_def)

lemma ret_bind: "pbind (ret x) f w = f x w"
  by (simp add: pbind_def ret_def split: prod.splits)

lemma get_table_bind: "pbind (get_table a) f w = f (table_at w a) w"
  by (simp add: pbind_def get_table_def split: prod.splits)

lemma get_dframe_bind: "pbind (get_dframe a) f w = f (dframe_at w a) w"
  by (simp add: pbind_def get_dframe_def split: prod.splits)

lemma column_bind: "pbind (column a col) f w = f (map col (table_at w a)) w"
  by (simp add: pbind_def column_def get_table_def ret_def split: prod.splits)

lemma alloc_bind: "pbind (alloc fr) f w = f (length (heap w)) (w\<lparr>heap := heap w @ [fr]\<rparr>)"
  by (simp add: pbind_def alloc_def split: prod.splits)

lemma raise_bind: "pbind (raise_err e) f w = (Raise e, [], w)"
  by (simp add: pbind_def raise_err_def)

lemma stop_bind: "pbind st_stop f w = (Stopped, [], w)"
  by (simp add: pbind_def st_stop_def)

lemma if_bind: "pbind (if c then a else b) f w = (if c then pbind a f w else pbind b f w)"
  by simp

lemma pbind_assoc: "pbind (pbind m f) g w = pbind m (\<lambda>x. pbind (f x) g) w"
  by (simp add: pbind_def split: prod.splits res.splits)

lemma all_plus_sorted_bind:
  "pbind (all_plus_sorted xs) f w =
     (case py_sorted xs of Inl e \<Rightarrow> (Raise e, [], w) | Inr ys \<Rightarrow> f (Str ''All'' # ys) w)"
  by (simp add: all_plus_sorted_def raise_bind ret_bind split: sum.splits)

lemma all_plus_sorted_run:
  "all_plus_sorted xs w =
     (case py_sorted xs of Inl e \<Rightarrow> (Raise e, [], w) | Inr ys \<Rightarrow> (Val (Str ''All'' # ys), [], w))"
  by (simp add: all_plus_sorted_def raise_err_def ret_def split: sum.splits)

lemma selectbox_bind:
  "pbind (selectbox l opts i) f w =
     prefixed [St_selectbox l opts (option_at opts i)] (f (option_at opts i) w)"
  by (simp add: selectbox_def pbind_assoc emit_bind ret_bind)

lemmas steps = emit_bind ret_bind get_table_bind get_dframe_bind column_bind alloc_bind raise_bind
  stop_bind if_bind all_plus_sorted_bind selectbox_bind
  prefixed_tuple prefixed_prefixed prefixed_sum prefixed_if

lemmas run_simps = steps pbind_assoc ret_def all_plus_sorted_run


lemma sidebar_filters_series_shown:
  assumes "sidebar_filters df ch w = (r, out, w')" "df < length (heap w)"
    and "St_selectbox ''Select Character'' opts c \<in> set out"
  shows "\<exists>series_opts s. St_selectbox ''Select Anime/Series'' series_opts s \<in> set out"
  using assms
  apply (simp add: sidebar_filters_def run_simps cong: sum.case_cong if_cong)
  apply (auto split: sum.splits if_splits)
  done

lemma sidebar_filters_Val:
  assumes "sidebar_filters df ch w = (Val sel, out, w')" "df < length (heap w)"
  shows "\<exists>l1 l2 l3 l4 l5 l6.
      py_sorted (unique (map location (table_at w df))) = Inr l1 \<and>
      py_sorted (unique (map event_type (table_at w df))) = Inr l2 \<and>
      py_sorted (unique (map day (table_at w df))) = Inr l3 \<and>
      py_sorted (filter shown_choice (unique (map series_character (table_at w df)))) = Inr l4 \<and>
      py_sorted (filter shown_choice (unique (map character_variant
         (if selected_anime sel \<noteq> Str ''All''
          then select_eq series_character (selected_anime sel) (table_at w df)
          else table_at w df)))) = Inr l5 \<and>
      py_sorted (unique (map product_type (table_at w df))) = Inr l6 \<and>
      sel = \<lparr>selected_location = option_at (Str ''All'' # l1) (ch_location ch),
             selected_event = option_at (Str ''All'' # l2) (ch_event ch),
             selected_day = option_at (Str ''All'' # l3) (ch_day ch),
             selected_anime = option_at (Str ''All'' # l4) (ch_anime ch),
             selected_character = option_at (Str ''All'' # l5) (ch_character ch),
             selected_product = option_at (Str ''All'' # l6) (ch_product ch)\<rparr> \<and>
      out = [St_sidebar_header ''Filters'',
             St_selectbox ''Select Location'' (Str ''All'' # l1) (selected_location sel),
             St_selectbox ''Select Event Type'' (Str ''All'' # l2) (selected_event sel),
             St_selectbox ''Select Day'' (Str ''All'' # l3) (selected_day sel),
             St_selectbox ''Select Anime/Series'' (Str ''All'' # l4) (selected_anime sel),
             St_selectbox ''Select Character'' (Str ''All'' # l5) (selected_character sel),
             St_selectbox ''Select Product Type'' (Str ''All'' # l6) (selected_product sel)] \<and>
      only_new_frames w w'"
  using assms
  apply (simp add: sidebar_filters_def run_simps cong: sum.case_cong if_cong)
  apply (auto split: sum.splits if_splits)
  done

lemma read_cell_parse [simp]: "read_cell (parse_cell s)"
  by (simp add: read_cell_def parse_cell_def na_values_def)

lemma as_read_read_csv: "as_read (read_csv ls)"
  by (simp add: as_read_def read_csv_def parse_line_def list_all_iff)

lemma pick3: "\<exists>k<3. i mod 3 = (k::nat)"
  by simp

lemma as_read_sample:
  assumes "length t = 150"
    and "\<forall>i<150.
            sheet_name (t ! i) = [Str ''MEGA LDN SAT'', Str ''MEGA LDN SUN'', Str ''AL LDN SAT''] ! (i mod 3) \<and>
            location (t ! i) = Str ''London'' \<and>
            day (t ! i) = [Str ''Saturday'', Str ''Sunday'', Str ''Saturday''] ! (i mod 3) \<and>
            event_type (t ! i) = [Str ''Mega'', Str ''Mega'', Str ''AL''] ! (i mod 3) \<and>
            series_character (t ! i) = [Str ''JJK'', Str ''Frieren'', Str ''ACNH''] ! (i mod 3) \<and>
            character_variant (t ! i) = [Str ''Fish'', Str ''Frieren'', Str ''Blathers''] ! (i mod 3) \<and>
            product_type (t ! i) = [Str ''Bag'', Str ''Keyring'', Str ''Pin''] ! (i mod 3) \<and>
            quantity (t ! i) = 1 + int (entropy w i mod 19)"
  shows "as_read t"
proof -
  have "read_cell (sheet_name (t ! i)) \<and> read_cell (location (t ! i)) \<and> read_cell (day (t ! i)) \<and>
        read_cell (event_type (t ! i)) \<and> read_cell (series_character (t ! i)) \<and>
        read_cell (character_variant (t ! i)) \<and> read_cell (product_type (t ! i))"
    if "i < 150" for i
  proof -
    have "i mod 3 = 0 \<or> i mod 3 = 1 \<or> i mod 3 = 2" by presburger
    then show ?thesis using assms(2) that by (auto simp: read_cell_def)
  qed
  then show ?thesis using assms(1) by (simp add: as_read_def list_all_length)
qed

lemma load_data_result:
  "\<exists>t msgs e. load_data w =
       (Val (length (heap w)), msgs,
        w\<lparr>entropy := e, cache := Some (t, msgs), heap := heap w @ [Sales t]\<rparr>) \<and>
     (cache_ok w \<longrightarrow> as_read t \<and> (msgs = [] \<or> msgs = [St_error not_found_msg, St_warning sample_msg]))"
proof (cases "cache w")
  case (Some c)
  obtain t msgs where c: "c = (t, msgs)" by (cases c)
  have "w\<lparr>heap := heap w @ [Sales t]\<rparr> = w\<lparr>entropy := entropy w, cache := Some (t, msgs), heap := heap w @ [Sales t]\<rparr>"
    using Some c by simp
  then have "load_data w = (Val (length (heap w)), msgs,
        w\<lparr>entropy := entropy w, cache := Some (t, msgs), heap := heap w @ [Sales t]\<rparr>)"
    using Some c by (simp add: load_data_def cache_data_def)
  moreover have "cache_ok w \<longrightarrow> as_read t \<and> (msgs = [] \<or> msgs = [St_error not_found_msg, St_warning sample_msg])"
    using Some c by (simp add: cache_ok_def)
  ultimately show ?thesis by blast
next
  case None
  show ?thesis
  proof (cases "csv_file w")
    case (Some ls)
    have "w\<lparr>heap := heap w @ [Sales (read_csv ls)], cache := Some (read_csv ls, [])\<rparr> =
          w\<lparr>entropy := entropy w, cache := Some (read_csv ls, []), heap := heap w @ [Sales (read_csv ls)]\<rparr>"
      by simp
    then have "load_data w = (Val (length (heap w)), [],
          w\<lparr>entropy := entropy w, cache := Some (read_csv ls, []), heap := heap w @ [Sales (read_csv ls)]\<rparr>)"
      using None Some by (simp add: load_data_def cache_data_def load_data_body_present)
    moreover have "as_read (read_csv ls)" by (rule as_read_read_csv)
    ultimately show ?thesis by blast
  next
    case noFile: None
    from load_data_body_missing[OF noFile] obtain t where
      b: "load_data_body w = (Val (length (heap w)), [St_error not_found_msg, St_warning sample_msg],
            w\<lparr>entropy := (\<lambda>i. entropy w (i + 150)), heap := heap w @ [Sales t]\<rparr>)"
      and l: "length t = 150"
      and rows: "\<forall>i<150.
            sheet_name (t ! i) = [Str ''MEGA LDN SAT'', Str ''MEGA LDN SUN'', Str ''AL LDN SAT''] ! (i mod 3) \<and>
            location (t ! i) = Str ''London'' \<and>
            day (t ! i) = [Str ''Saturday'', Str ''Sunday'', Str ''Saturday''] ! (i mod 3) \<and>
            event_type (t ! i) = [Str ''Mega'', Str ''Mega'', Str ''AL''] ! (i mod 3) \<and>
            series_character (t ! i) = [Str ''JJK'', Str ''Frieren'', Str ''ACNH''] ! (i mod 3) \<and>
            character_variant (t ! i) = [Str ''Fish'', Str ''Frieren'', Str ''Blathers''] ! (i mod 3) \<and>
            product_type (t ! i) = [Str ''Bag'', Str ''Keyring'', Str ''Pin''] ! (i mod 3) \<and>
            quantity (t ! i) = 1 + int (entropy w i mod 19)"
      by blast
    have "as_read t" using l rows by (rule as_read_sample)
    moreover have "load_data w = (Val (length (heap w)), [St_error not_found_msg, St_warning sample_msg],
        w\<lparr>entropy := (\<lambda>i. entropy w (i + 150)),
          cache := Some (t, [St_error not_found_msg, St_warning sample_msg]),
          heap := heap w @ [Sales t]\<rparr>)"
      using None b by (simp add: load_data_def cache_data_def table_at_def frame_at_def)
    ultimately show ?thesis by blast
  qed
qed

lemma pbind_run: "m w = (Val x, o1, w1) \<Longrightarrow> pbind m f w = prefixed o1 (f x w1)"
  by (simp add: pbind_def prefixed_def)

lemma filter_step_result:
  assumes "a < length (heap w)"
  shows "\<exists>a' act' w'. filter_step col label s (a, act) w = (Val (a', act'), [], w') \<and>
           table_at w' a' = filter (\<lambda>r. s = Str ''All'' \<or> eq_cell (col r) s) (table_at w a) \<and>
           only_new_frames w w' \<and> a \<le> a' \<and> a' < length (heap w')"
proof (cases "s = Str ''All''")
  case True
  then show ?thesis using assms by (simp add: filter_step_def ret_def)
next
  case False
  then show ?thesis using assms
    by (simp add: filter_step_def run_simps alloc_def select_eq_def)
qed

lemma apply_filters_result:
  assumes "df < length (heap w)"
  shows "\<exists>a active w'. apply_filters df sel w = (Val (a, active), [], w') \<and>
           table_at w' a = filter (passes sel) (table_at w df) \<and>
           only_new_frames w w' \<and> length (heap w) \<le> a \<and> a < length (heap w')"
proof -
  let ?w0 = "w\<lparr>heap := heap w @ [Sales (table_at w df)]\<rparr>"
  let ?a0 = "length (heap w)"
  have a0: "?a0 < length (heap ?w0)" by simp
  have t0: "table_at ?w0 ?a0 = table_at w df" by simp
  have n0: "only_new_frames w ?w0" by simp
  from filter_step_result[OF a0, of location "''Location''" "selected_location sel" "[]"]
  obtain a1 act1 w1 where
    s1: "filter_step location ''Location'' (selected_location sel) (?a0, []) ?w0 = (Val (a1, act1), [], w1)"
    and t1: "table_at w1 a1 = filter (\<lambda>r. selected_location sel = Str ''All'' \<or> eq_cell (location r) (selected_location sel)) (table_at ?w0 ?a0)"
    and n1: "only_new_frames ?w0 w1" and l1: "?a0 \<le> a1" "a1 < length (heap w1)"
    by blast
  from filter_step_result[OF l1(2), of event_type "''Event''" "selected_event sel" act1]
  obtain a2 act2 w2 where
    s2: "filter_step event_type ''Event'' (selected_event sel) (a1, act1) w1 = (Val (a2, act2), [], w2)"
    and t2: "table_at w2 a2 = filter (\<lambda>r. selected_event sel = Str ''All'' \<or> eq_cell (event_type r) (selected_event sel)) (table_at w1 a1)"
    and n2: "only_new_frames w1 w2" and l2: "a1 \<le> a2" "a2 < length (heap w2)"
    by blast
  from filter_step_result[OF l2(2), of day "''Day''" "selected_day sel" act2]
  obtain a3 act3 w3 where
    s3: "filter_step day ''Day'' (selected_day sel) (a2, act2) w2 = (Val (a3, act3), [], w3)"
    and t3: "table_at w3 a3 = filter (\<lambda>r. selected_day sel = Str ''All'' \<or> eq_cell (day r) (selected_day sel)) (table_at w2 a2)"
    and n3: "only_new_frames w2 w3" and l3: "a2 \<le> a3" "a3 < length (heap w3)"
    by blast
  from filter_step_result[OF l3(2), of series_character "''Series''" "selected_anime sel" act3]
  obtain a4 act4 w4 where
    s4: "filter_step series_character ''Series'' (selected_anime sel) (a3, act3) w3 = (Val (a4, act4), [], w4)"
    and t4: "table_at w4 a4 = filter (\<lambda>r. selected_anime sel = Str ''All'' \<or> eq_cell (series_character r) (selected_anime sel)) (table_at w3 a3)"
    and n4: "only_new_frames w3 w4" and l4: "a3 \<le> a4" "a4 < length (heap w4)"
    by blast
  from filter_step_result[OF l4(2), of character_variant "''Character''" "selected_character sel" act4]
  obtain a5 act5 w5 where
    s5: "filter_step character_variant ''Character'' (selected_character sel) (a4, act4) w4 = (Val (a5, act5), [], w5)"
    and t5: "table_at w5 a5 = filter (\<lambda>r. selected_character sel = Str ''All'' \<or> eq_cell (character_variant r) (selected_character sel)) (table_at w4 a4)"
    and n5: "only_new_frames w4 w5" and l5: "a4 \<le> a5" "a5 < length (heap w5)"
    by blast
  from filter_step_result[OF l5(2), of product_type "''Product''" "selected_product sel" act5]
  obtain a6 act6 w6 where
    s6: "filter_step product_type ''Product'' (selected_product sel) (a5, act5) w5 = (Val (a6, act6), [], w6)"
    and t6: "table_at w6 a6 = filter (\<lambda>r. selected_product sel = Str ''All'' \<or> eq_cell (product_type r) (selected_product sel)) (table_at w5 a5)"
    and n6: "only_new_frames w5 w6" and l6: "a5 \<le> a6" "a6 < length (heap w6)"
    by blast
  have run: "apply_filters df sel w = (Val (a6, act6), [], w6)"
    by (simp add: apply_filters_def pbind_def get_table_def alloc_def s1 s2 s3 s4 s5 s6)
  have tab: "table_at w6 a6 = filter (passes sel) (table_at w df)"
    unfolding t6 t5 t4 t3 t2 t1 t0 filter_filter
    by (rule filter_cong[OF refl]) (auto simp: passes_def)
  have new: "only_new_frames w w6"
    using n0 n1 n2 n3 n4 n5 n6 by (blast intro: only_new_frames_trans)
  have "length (heap w) \<le> a6" using l1 l2 l3 l4 l5 l6 by linarith
  with run tab new l6 show ?thesis by blast
qed

lemma prefixed_Val:
  "prefixed pre p = (Val x, out, w') \<Longrightarrow> \<exists>o2. p = (Val x, o2, w') \<and> out = pre @ o2"
  by (cases p) (simp add: prefixed_def)

lemma filtered_view_Val:
  assumes "filtered_view ch w = (Val (sel, a, active), out, w')"
  shows "\<exists>t msgs e w2 sbar.
      load_data w = (Val (length (heap w)), msgs,
                     w\<lparr>entropy := e, cache := Some (t, msgs), heap := heap w @ [Sales t]\<rparr>) \<and>
      (cache_ok w \<longrightarrow> as_read t \<and> (msgs = [] \<or> msgs = [St_error not_found_msg, St_warning sample_msg])) \<and>
      sidebar_filters (length (heap w)) ch
        (w\<lparr>entropy := e, cache := Some (t, msgs), heap := heap w @ [Sales t]\<rparr>) = (Val sel, sbar, w2) \<and>
      apply_filters (length (heap w)) sel w2 = (Val (a, active), [], w') \<and>
      out = St_markdown ''Convention Sales Dashboard'' # msgs @ sbar \<and>
      table_at w' a = filter (passes sel) t \<and>
      only_new_frames (w\<lparr>entropy := e, cache := Some (t, msgs), heap := heap w @ [Sales t]\<rparr>) w' \<and>
      length (heap w) < a \<and> a < length (heap w')"
proof -
  from load_data_result[of w] obtain t msgs e where
    ld: "load_data w = (Val (length (heap w)), msgs,
           w\<lparr>entropy := e, cache := Some (t, msgs), heap := heap w @ [Sales t]\<rparr>)"
    and ok: "cache_ok w \<longrightarrow> as_read t \<and> (msgs = [] \<or> msgs = [St_error not_found_msg, St_warning sample_msg])"
    by blast
  let ?df = "length (heap w)"
  let ?w1 = "w\<lparr>entropy := e, cache := Some (t, msgs), heap := heap w @ [Sales t]\<rparr>"
  have df: "?df < length (heap ?w1)" by simp
  have t1: "table_at ?w1 ?df = t" by (simp add: table_at_def frame_at_def)
  obtain r sbar w2 where sb: "sidebar_filters ?df ch ?w1 = (r, sbar, w2)"
    by (cases "sidebar_filters ?df ch ?w1") auto
  have fv: "filtered_view ch w =
      prefixed (St_markdown ''Convention Sales Dashboard'' # msgs)
        (pbind (sidebar_filters ?df ch) (\<lambda>sel. pbind (apply_filters ?df sel) (\<lambda>st. ret (sel, st))) ?w1)"
    by (simp add: filtered_view_def emit_bind pbind_run[where m = load_data, OF ld] prefixed_prefixed)
  have rv: "r = Val sel"
    using assms sb unfolding fv
    by (cases r) (auto simp: pbind_def prefixed_def ret_def split: prod.splits res.splits)
  have n12: "only_new_frames ?w1 w2"
    using sidebar_filters_Val[OF sb[unfolded rv] df] by blast
  then have df2: "?df < length (heap w2)" using df by (simp add: only_new_frames_def)
  have t2: "table_at w2 ?df = t"
    using only_new_frames_frame_at[OF n12 df] t1 by (simp add: table_at_def)
  from apply_filters_result[OF df2, of sel] obtain a' active' w3 where
    af: "apply_filters ?df sel w2 = (Val (a', active'), [], w3)"
    and tab: "table_at w3 a' = filter (passes sel) (table_at w2 ?df)"
    and n23: "only_new_frames w2 w3" and la: "length (heap w2) \<le> a'" "a' < length (heap w3)"
    by blast
  have res: "filtered_view ch w = (Val (sel, a', active'), St_markdown ''Convention Sales Dashboard'' # msgs @ sbar, w3)"
    unfolding fv using sb rv af by (simp add: pbind_def prefixed_def ret_def)
  with assms have eqs: "a' = a" "active' = active" "w3 = w'"
    "out = St_markdown ''Convention Sales Dashboard'' # msgs @ sbar" by simp_all
  have "only_new_frames ?w1 w3" using n12 n23 by (rule only_new_frames_trans)
  moreover have "length (heap w) < a'" using la df2 by simp
  ultimately show ?thesis
    using ld ok sb rv af tab t2 la eqs by blast
qed

lemma ex_load:
  "load_data ex_world = (Val 0, [], ex_world\<lparr>heap := [Sales (read_csv ex_lines)],
      cache := Some (read_csv ex_lines, [])\<rparr>)"
  by (simp add: load_data_def cache_data_def load_data_body_present ex_world_def table_at_def
      frame_at_def)

lemma ex_read:
  "read_csv ex_lines =
     [\<lparr>sheet_name = Str ''MEGA LDN SAT'', location = Str ''London'', day = Str ''Saturday'',
       event_type = Str ''Mega'', series_character = Str ''JJK'', character_variant = Str ''Fish'',
       product_type = Str ''Bag'', quantity = 1\<rparr>,
      \<lparr>sheet_name = Str ''MEGA LDN SAT'', location = Str ''Paris'', day = Str ''Saturday'',
       event_type = Str ''Mega'', series_character = Str ''JJK'', character_variant = Str ''Fish'',
       product_type = Str ''Bag'', quantity = 5\<rparr>,
      \<lparr>sheet_name = Str ''MEGA LDN SAT'', location = Str ''London'', day = Str ''Saturday'',
       event_type = Str ''Mega'', series_character = Str ''JJK'', character_variant = NaN,
       product_type = Str ''Bag'', quantity = 2\<rparr>]"
  by (simp add: read_csv_def ex_lines_def parse_line_def ex_line_def parse_cell_def na_values_def)

lemma ex_view: "fst (filtered_view ex_choice ex_world) = Val (ex_sel, 2, [''Location: London''])"
  by code_simp

lemma texts_map_Str [simp]: "texts (map Str xs) = xs"
  by (induction xs) auto

lemma texts_filter_is_str: "map Str (texts xs) = filter is_str xs"
  by (induction xs rule: texts.induct) auto



lemma set_unique [simp]: "set (unique xs) = set xs"
  by (simp add: unique_def)

lemma distinct_unique [simp]: "distinct (unique xs)"
  by (simp add: unique_def)







lemma ex_series_out:
  "fst (snd (filtered_view ex_series_choice ex_world)) =
     [St_markdown ''Convention Sales Dashboard'', St_sidebar_header ''Filters'',
      St_selectbox ''Select Location'' [Str ''All'', Str ''London'', Str ''Paris''] (Str ''All''),
      St_selectbox ''Select Event Type'' [Str ''All'', Str ''Mega''] (Str ''All''),
      St_selectbox ''Select Day'' [Str ''All'', Str ''Saturday''] (Str ''All''),
      St_selectbox ''Select Anime/Series'' [Str ''All'', Str ''JJK''] (Str ''JJK''),
      St_selectbox ''Select Character'' [Str ''All'', Str ''Fish''] (Str ''All''),
      St_selectbox ''Select Product Type'' [Str ''All'', Str ''Bag''] (Str ''All'')]"
  by code_simp

lemma ex_cache_ok: "cache_ok ex_world"
  by (simp add: cache_ok_def ex_world_def)

lemma load_data_hit:
  "cache w = Some (t, msgs) \<Longrightarrow>
   load_data w = (Val (length (heap w)), msgs, w\<lparr>heap := heap w @ [Sales t]\<rparr>)"
  by (simp add: load_data_def cache_data_def)

lemma load_data_miss_present:
  "cache w = None \<Longrightarrow> csv_file w = Some ls \<Longrightarrow>
   load_data w = (Val (length (heap w)), [],
                  w\<lparr>cache := Some (read_csv ls, []), heap := heap w @ [Sales (read_csv ls)]\<rparr>)"
  by (simp add: load_data_def cache_data_def load_data_body_present table_at_def frame_at_def)

lemma load_data_miss_missing:
  assumes "cache w = None" "csv_file w = None"
  shows "\<exists>t. load_data w =
           (Val (length (heap w)), [St_error not_found_msg, St_warning sample_msg],
            w\<lparr>entropy := (\<lambda>i. entropy w (i + 150)),
              cache := Some (t, [St_error not_found_msg, St_warning sample_msg]),
              heap := heap w @ [Sales t]\<rparr>) \<and>
         length t = 150 \<and>
         (\<forall>i<150.
            sheet_name (t ! i) = [Str ''MEGA LDN SAT'', Str ''MEGA LDN SUN'', Str ''AL LDN SAT''] ! (i mod 3) \<and>
            location (t ! i) = Str ''London'' \<and>
            day (t ! i) = [Str ''Saturday'', Str ''Sunday'', Str ''Saturday''] ! (i mod 3) \<and>
            event_type (t ! i) = [Str ''Mega'', Str ''Mega'', Str ''AL''] ! (i mod 3) \<and>
            series_character (t ! i) = [Str ''JJK'', Str ''Frieren'', Str ''ACNH''] ! (i mod 3) \<and>
            character_variant (t ! i) = [Str ''Fish'', Str ''Frieren'', Str ''Blathers''] ! (i mod 3) \<and>
            product_type (t ! i) = [Str ''Bag'', Str ''Keyring'', Str ''Pin''] ! (i mod 3) \<and>
            1 \<le> quantity (t ! i) \<and> quantity (t ! i) < 20)"
proof -
  from load_data_body_missing[OF assms(2)] obtain t where
    b: "load_data_body w = (Val (length (heap w)), [St_error not_found_msg, St_warning sample_msg],
            w\<lparr>entropy := (\<lambda>i. entropy w (i + 150)), heap := heap w @ [Sales t]\<rparr>)"
    and l: "length t = 150"
    and rows: "\<forall>i<150.
            sheet_name (t ! i) = [Str ''MEGA LDN SAT'', Str ''MEGA LDN SUN'', Str ''AL LDN SAT''] ! (i mod 3) \<and>
            location (t ! i) = Str ''London'' \<and>
            day (t ! i) = [Str ''Saturday'', Str ''Sunday'', Str ''Saturday''] ! (i mod 3) \<and>
            event_type (t ! i) = [Str ''Mega'', Str ''Mega'', Str ''AL''] ! (i mod 3) \<and>
            series_character (t ! i) = [Str ''JJK'', Str ''Frieren'', Str ''ACNH''] ! (i mod 3) \<and>
            character_variant (t ! i) = [Str ''Fish'', Str ''Frieren'', Str ''Blathers''] ! (i mod 3) \<and>
            product_type (t ! i) = [Str ''Bag'', Str ''Keyring'', Str ''Pin''] ! (i mod 3) \<and>
            quantity (t ! i) = 1 + int (entropy w i mod 19)"
    by blast
  have q: "1 \<le> 1 + int (n mod 19) \<and> 1 + int (n mod 19) < 20" for n :: nat
    by (simp add: zmod_int)
  have "load_data w = (Val (length (heap w)), [St_error not_found_msg, St_warning sample_msg],
        w\<lparr>entropy := (\<lambda>i. entropy w (i + 150)),
          cache := Some (t, [St_error not_found_msg, St_warning sample_msg]),
          heap := heap w @ [Sales t]\<rparr>)"
    using assms(1) b by (simp add: load_data_def cache_data_def table_at_def frame_at_def)
  moreover have "\<forall>i<150.
            sheet_name (t ! i) = [Str ''MEGA LDN SAT'', Str ''MEGA LDN SUN'', Str ''AL LDN SAT''] ! (i mod 3) \<and>
            location (t ! i) = Str ''London'' \<and>
            day (t ! i) = [Str ''Saturday'', Str ''Sunday'', Str ''Saturday''] ! (i mod 3) \<and>
            event_type (t ! i) = [Str ''Mega'', Str ''Mega'', Str ''AL''] ! (i mod 3) \<and>
            series_character (t ! i) = [Str ''JJK'', Str ''Frieren'', Str ''ACNH''] ! (i mod 3) \<and>
            character_variant (t ! i) = [Str ''Fish'', Str ''Frieren'', Str ''Blathers''] ! (i mod 3) \<and>
            product_type (t ! i) = [Str ''Bag'', Str ''Keyring'', Str ''Pin''] ! (i mod 3) \<and>
            1 \<le> quantity (t ! i) \<and> quantity (t ! i) < 20"
    using rows q by simp
  ultimately show ?thesis using l by blast
qed

lemma ex_nofile_load:
  "\<exists>t. load_data ex_nofile_world =
           (Val 0, [St_error not_found_msg, St_warning sample_msg],
            ex_nofile_world\<lparr>entropy := (\<lambda>i. i + 150),
              cache := Some (t, [St_error not_found_msg, St_warning sample_msg]),
              heap := [Sales t]\<rparr>) \<and> length t = 150"
  using load_data_miss_missing[of ex_nofile_world]
  by (auto simp: ex_nofile_world_def ex_world_def)

lemma ex_late_load:
  "csv_file ex_late_world = Some ex_lines \<and>
   (\<exists>t. load_data ex_late_world =
       (Val 1, [St_error not_found_msg, St_warning sample_msg],
        ex_late_world\<lparr>heap := heap ex_late_world @ [Sales t]\<rparr>) \<and> length t = 150)"
proof -
  from ex_nofile_load obtain t where
    l: "load_data ex_nofile_world =
           (Val 0, [St_error not_found_msg, St_warning sample_msg],
            ex_nofile_world\<lparr>entropy := (\<lambda>i. i + 150),
              cache := Some (t, [St_error not_found_msg, St_warning sample_msg]),
              heap := [Sales t]\<rparr>)" and n: "length t = 150"
    by blast
  have c: "cache ex_late_world = Some (t, [St_error not_found_msg, St_warning sample_msg])"
    and h: "heap ex_late_world = [Sales t]" and f: "csv_file ex_late_world = Some ex_lines"
    by (simp_all add: ex_late_world_def l)
  from load_data_hit[OF c] h f n show ?thesis by auto
qed

lemmas heap_defs = frame_at_def table_at_def dframe_at_def set_column_def set_columns_def nth_append

lemma create_event_comparison_eq:
  "create_event_comparison df w =
     (Val \<lparr>fig_kind = Bar, fig_title = ''Event Type Performance by Location'',
           fig_data = reset_index [''event_type'', ''location'']
                        (groupby_sum [event_type, location] (table_at w df)),
           fig_args = [(''x'', ''location''), (''y'', ''quantity''), (''color'', ''event_type''),
                      (''barmode'', ''group''), (''height'', ''400'')]\<rparr>, [],
      w\<lparr>heap := heap w @ [Derived (reset_index [''event_type'', ''location'']
                        (groupby_sum [event_type, location] (table_at w df)))]\<rparr>)"
  by (simp add: create_event_comparison_def prog_defs dframe_at_def)

lemma create_daily_performance_eq:
  "create_daily_performance df w =
     (Val \<lparr>fig_kind = Pie, fig_title = ''Sales Distribution by Day'',
           fig_data = reset_index [''day'', ''event_type''] (groupby_sum [day, event_type] (table_at w df)),
           fig_args = [(''values'', ''quantity''), (''names'', ''day''), (''height'', ''400'')]\<rparr>, [],
      w\<lparr>heap := heap w @ [Derived (reset_index [''day'', ''event_type'']
                        (groupby_sum [day, event_type] (table_at w df)))]\<rparr>)"
  by (simp add: create_daily_performance_def prog_defs dframe_at_def)

lemma create_product_performance_eq:
  "create_product_performance df w =
     (Val \<lparr>fig_kind = Bar, fig_title = ''Product Performance'',
           fig_data = sort_values 1 True
                        (reset_index [''product_type''] (groupby_sum [product_type] (table_at w df))),
           fig_args = [(''x'', ''quantity''), (''y'', ''product_type''), (''orientation'', ''h''),
                      (''color'', ''quantity''), (''color_continuous_scale'', ''plasma''),
                      (''height'', ''400'')]\<rparr>, [],
      w\<lparr>heap := heap w @
         [Derived (reset_index [''product_type''] (groupby_sum [product_type] (table_at w df))),
          Derived (sort_values 1 True
                     (reset_index [''product_type''] (groupby_sum [product_type] (table_at w df))))]\<rparr>)"
  by (simp add: create_product_performance_def prog_defs heap_defs)

lemma create_top_characters_eq:
  "create_top_characters df w =
     (Val \<lparr>fig_kind = Treemap, fig_title = ''Top Characters by Sales'',
           fig_data = nlargest 15 2
              \<lparr>columns = [''series_character'', ''character_variant'', ''quantity'', ''full_name''],
               drows = map (\<lambda>r. r @ [full_name r])
                  (drows (reset_index [''series_character'', ''character_variant'']
                     (groupby_sum [series_character, character_variant] (table_at w df))))\<rparr>,
           fig_args = [(''path'', ''series_character, character_variant''), (''values'', ''quantity''),
                      (''color'', ''quantity''), (''color_continuous_scale'', ''blues''),
                      (''height'', ''500'')]\<rparr>, [],
      w\<lparr>heap := heap w @
         [Derived \<lparr>columns = [''series_character'', ''character_variant'', ''quantity'', ''full_name''],
               drows = map (\<lambda>r. r @ [full_name r])
                  (drows (reset_index [''series_character'', ''character_variant'']
                     (groupby_sum [series_character, character_variant] (table_at w df))))\<rparr>,
          Derived (nlargest 15 2
              \<lparr>columns = [''series_character'', ''character_variant'', ''quantity'', ''full_name''],
               drows = map (\<lambda>r. r @ [full_name r])
                  (drows (reset_index [''series_character'', ''character_variant'']
                     (groupby_sum [series_character, character_variant] (table_at w df))))\<rparr>)]\<rparr>)"
  by (simp add: create_top_characters_def prog_defs heap_defs reset_index_def)

lemma select_eq_Str: "select_eq c (Str g) t = filter (\<lambda>r. c r = Str g) t"
  unfolding select_eq_def by (rule filter_cong[OF refl]) (auto elim: eq_cell.elims)

lemma wrap64_fits: "- (2 ^ 63) \<le> n \<Longrightarrow> n < 2 ^ 63 \<Longrightarrow> wrap64 n = n"
  by (simp add: wrap64_def)

lemma ex_huge_table:
  "table_at ex_huge_loaded 0 =
     [parse_line (ex_line\<lparr>f_quantity := 2 ^ 62\<rparr>), parse_line (ex_line\<lparr>f_quantity := 2 ^ 62\<rparr>)]"
  by (simp add: ex_huge_loaded_def table_at_def frame_at_def read_csv_def)









section \<open>Programs that only add new objects\<close>

lemma framedI: "(\<And>w. only_new_frames w (snd (snd (m w)))) \<Longrightarrow> framed m"
  by (simp add: framed_def)

lemma framedD: "framed m \<Longrightarrow> m w = (r, out, w') \<Longrightarrow> only_new_frames w w'"
  by (auto simp: framed_def dest: spec[of _ w])

lemma framed_ret: "framed (ret x)"
  by (simp add: framed_def ret_def)

lemma framed_emit: "framed (emit u)"
  by (simp add: framed_def emit_def)

lemma framed_raise_err: "framed (raise_err e)"
  by (simp add: framed_def raise_err_def)

lemma framed_st_stop: "framed st_stop"
  by (simp add: framed_def st_stop_def)

lemma framed_alloc: "framed (alloc fr)"
  by (simp add: framed_def alloc_def)

lemma framed_get_table: "framed (get_table a)"
  by (simp add: framed_def get_table_def)

lemma framed_get_dframe: "framed (get_dframe a)"
  by (simp add: framed_def get_dframe_def)

lemma framed_st_dataframe: "framed (st_dataframe a)"
  by (simp add: framed_def st_dataframe_def emit_def)

lemma framed_st_download_button: "framed (st_download_button l a n)"
  by (simp add: framed_def st_download_button_def emit_def)

lemma framed_pbind:
  assumes "framed m" "\<And>x. framed (f x)"
  shows "framed (pbind m f)"
proof (rule framedI)
  fix w
  obtain r o1 w1 where m: "m w = (r, o1, w1)" by (cases "m w") auto
  have n1: "only_new_frames w w1" using assms(1) m by (rule framedD)
  show "only_new_frames w (snd (snd (pbind m f w)))"
  proof (cases r)
    case (Val x)
    obtain r2 o2 w2 where f: "f x w1 = (r2, o2, w2)" by (cases "f x w1") auto
    have "only_new_frames w1 w2" using assms(2) f by (rule framedD)
    with n1 have "only_new_frames w w2" by (rule only_new_frames_trans)
    then show ?thesis using m Val f by (simp add: pbind_def)
  next
    case (Raise e)
    then show ?thesis using m n1 by (simp add: pbind_def)
  next
    case Stopped
    then show ?thesis using m n1 by (simp add: pbind_def)
  qed
qed

lemma framed_if: "framed a \<Longrightarrow> framed b \<Longrightarrow> framed (if c then a else b)"
  by simp

lemma framed_case_sum:
  "(\<And>e. framed (A e)) \<Longrightarrow> (\<And>y. framed (B y)) \<Longrightarrow> framed (case s of Inl e \<Rightarrow> A e | Inr y \<Rightarrow> B y)"
  by (cases s) auto

lemma framed_case_option:
  "framed A \<Longrightarrow> (\<And>y. framed (B y)) \<Longrightarrow> framed (case s of None \<Rightarrow> A | Some y \<Rightarrow> B y)"
  by (cases s) auto

lemma framed_case_prod:
  "(\<And>x y. framed (B x y)) \<Longrightarrow> framed (case p of (x, y) \<Rightarrow> B x y)"
  by (cases p) auto

lemma only_new_frames_alloc_update:
  "only_new_frames w (w\<lparr>heap := (heap w @ [fr])[length (heap w) := fr']\<rparr>)"
  by (simp add: only_new_frames_def)

lemma framed_alloc_set_columns:
  assumes "\<And>a. framed (k a)"
  shows "framed (pbind (alloc fr) (\<lambda>a. pbind (set_columns a ns) (\<lambda>u. k a)))"
proof (rule framedI)
  fix w
  let ?w2 = "w\<lparr>heap := (heap w @ [fr])[length (heap w) :=
      Derived ((dframe_at (w\<lparr>heap := heap w @ [fr]\<rparr>) (length (heap w)))\<lparr>columns := ns\<rparr>)]\<rparr>"
  have run: "pbind (alloc fr) (\<lambda>a. pbind (set_columns a ns) (\<lambda>u. k a)) w = k (length (heap w)) ?w2"
    by (simp add: pbind_def alloc_def set_columns_def split: prod.splits)
  have n1: "only_new_frames w ?w2" by (rule only_new_frames_alloc_update)
  have "only_new_frames ?w2 (snd (snd (k (length (heap w)) ?w2)))"
    using assms by (simp add: framed_def)
  with n1 show "only_new_frames w (snd (snd (pbind (alloc fr) (\<lambda>a. pbind (set_columns a ns) (\<lambda>u. k a)) w)))"
    unfolding run by (rule only_new_frames_trans)
qed

lemma framed_alloc_set_column:
  assumes "\<And>a. framed (k a)"
  shows "framed (pbind (alloc fr) (\<lambda>a. pbind (set_column a n g) (\<lambda>u. k a)))"
proof (rule framedI)
  fix w
  let ?d = "dframe_at (w\<lparr>heap := heap w @ [fr]\<rparr>) (length (heap w))"
  let ?w2 = "w\<lparr>heap := (heap w @ [fr])[length (heap w) :=
      Derived \<lparr>columns = columns ?d @ [n], drows = map (\<lambda>r. r @ [g r]) (drows ?d)\<rparr>]\<rparr>"
  have run: "pbind (alloc fr) (\<lambda>a. pbind (set_column a n g) (\<lambda>u. k a)) w = k (length (heap w)) ?w2"
    by (simp add: pbind_def alloc_def set_column_def Let_def split: prod.splits)
  have n1: "only_new_frames w ?w2" by (rule only_new_frames_alloc_update)
  have "only_new_frames ?w2 (snd (snd (k (length (heap w)) ?w2)))"
    using assms by (simp add: framed_def)
  with n1 show "only_new_frames w (snd (snd (pbind (alloc fr) (\<lambda>a. pbind (set_column a n g) (\<lambda>u. k a)) w)))"
    unfolding run by (rule only_new_frames_trans)
qed

lemmas framed_intros = framed_alloc_set_columns framed_alloc_set_column framed_pbind framed_ret
  framed_emit framed_raise_err framed_st_stop framed_alloc framed_get_table framed_get_dframe
  framed_st_dataframe framed_st_download_button framed_if framed_case_sum framed_case_option
  framed_case_prod

lemma framed_column: "framed (column a c)"
  unfolding column_def by (intro framed_intros)

lemma framed_selectbox: "framed (selectbox l opts i)"
  unfolding selectbox_def by (intro framed_intros)

lemma framed_all_plus_sorted: "framed (all_plus_sorted xs)"
  unfolding all_plus_sorted_def by (intro framed_intros)

lemma framed_top_card: "framed (top_card l n s)"
  unfolding top_card_def by (intro framed_intros)

lemma framed_create_sales_by_location: "framed (create_sales_by_location a)"
  unfolding create_sales_by_location_def by (intro framed_intros)

lemma framed_create_event_comparison: "framed (create_event_comparison a)"
  unfolding create_event_comparison_def by (intro framed_intros)

lemma framed_create_product_performance: "framed (create_product_performance a)"
  unfolding create_product_performance_def by (intro framed_intros)

lemma framed_create_top_characters: "framed (create_top_characters a)"
  unfolding create_top_characters_def by (intro framed_intros)

lemma framed_create_daily_performance: "framed (create_daily_performance a)"
  unfolding create_daily_performance_def by (intro framed_intros)

lemma framed_create_overview_metrics: "framed (create_overview_metrics a)"
  unfolding create_overview_metrics_def by (intro framed_intros framed_column framed_top_card)

lemma framed_create_character_analysis: "framed (create_character_analysis a)"
  unfolding create_character_analysis_def by (intro framed_intros)

lemma framed_create_detailed_analysis: "framed (create_detailed_analysis a)"
  unfolding create_detailed_analysis_def by (intro framed_intros)

lemma framed_sales_overview: "framed (sales_overview a)"
  unfolding sales_overview_def
  by (intro framed_intros framed_create_sales_by_location framed_create_event_comparison
      framed_create_product_performance framed_create_daily_performance)

lemma framed_character_overview: "framed (character_overview a)"
  unfolding character_overview_def by (intro framed_intros framed_create_top_characters)

lemma framed_data_insights: "framed (data_insights a)"
  unfolding data_insights_def by (intro framed_intros framed_column)

lemma framed_raw_data: "framed (raw_data a)"
  unfolding raw_data_def by (intro framed_intros)

lemma framed_export_options: "framed (export_options a sel)"
  unfolding export_options_def by (intro framed_intros)

lemma framed_render: "framed (render a sel)"
  unfolding render_def
  by (intro framed_pbind framed_create_overview_metrics framed_sales_overview
      framed_character_overview framed_create_character_analysis framed_create_detailed_analysis
      framed_data_insights framed_raw_data framed_export_options)

lemma framed_sidebar_filters: "framed (sidebar_filters df ch)"
  unfolding sidebar_filters_def
  by (intro framed_intros framed_column framed_selectbox framed_all_plus_sorted)

lemma framed_filter_step: "framed (filter_step c l s st)"
  unfolding filter_step_def by (intro framed_intros)

lemma framed_apply_filters: "framed (apply_filters df sel)"
  unfolding apply_filters_def by (intro framed_intros framed_filter_step)

lemma framed_show_active_filters: "framed (show_active_filters a)"
  unfolding show_active_filters_def by (intro framed_intros)

lemma framed_stop_if_empty: "framed (stop_if_empty a)"
  unfolding stop_if_empty_def by (intro framed_intros)

section \<open>The run of main\<close>

lemma prefixed_world [simp]: "snd (snd (prefixed pre p)) = snd (snd p)"
  by (cases p) (simp add: prefixed_def)

lemma pbind_assoc_fun: "pbind (pbind m f) g = pbind m (\<lambda>x. pbind (f x) g)"
  by (rule ext) (rule pbind_assoc)

lemma ret_bind_fun: "pbind (ret x) f = f x"
  by (rule ext) (rule ret_bind)

lemma main_after_load:
  assumes "load_data w = (Val df, msgs, w1)"
  shows "main ch w =
     prefixed (St_markdown ''Convention Sales Dashboard'' # msgs)
       (pbind (sidebar_filters df ch) (\<lambda>sel.
        pbind (apply_filters df sel) (\<lambda>st.
        pbind (show_active_filters (snd st)) (\<lambda>_.
        pbind (stop_if_empty (fst st)) (\<lambda>_.
        render (fst st) sel)))) w1)"
  by (simp add: main_def filtered_view_def pbind_assoc_fun ret_bind_fun emit_bind
      pbind_run[where m = load_data, OF assms] prefixed_prefixed)

lemma framed_after_load:
  "framed (pbind (sidebar_filters df ch) (\<lambda>sel.
        pbind (apply_filters df sel) (\<lambda>st.
        pbind (show_active_filters (snd st)) (\<lambda>_.
        pbind (stop_if_empty (fst st)) (\<lambda>_.
        render (fst st) sel)))))"
  by (intro framed_pbind framed_sidebar_filters framed_apply_filters framed_show_active_filters
      framed_stop_if_empty framed_render)

lemma show_active_filters_eq:
  "show_active_filters active w =
     (Val (), (if active \<noteq> [] then [St_markdown ''Active Filters'', St_info (join_with '' | '' active)]
               else [St_success ''Showing all data - no filters applied'']), w)"
  by (simp add: show_active_filters_def pbind_def emit_def)

lemma stop_if_empty_eq:
  "stop_if_empty a w =
     (if table_at w a = [] then (Stopped, [St_warning no_match_msg], w) else (Val (), [], w))"
  by (simp add: stop_if_empty_def pbind_def get_table_def emit_def st_stop_def ret_def)

lemma filtered_view_no_output:
  assumes "cache_ok w" and "filtered_view ch w = (Val (sel, a, active), out1, w1)"
  shows "list_all (\<lambda>u. \<not> is_output u) out1"
proof -
  from filtered_view_Val[OF assms(2)] assms(1) obtain t msgs e w2 sbar where
    ms: "msgs = [] \<or> msgs = [St_error not_found_msg, St_warning sample_msg]"
    and sb: "sidebar_filters (length (heap w)) ch
        (w\<lparr>entropy := e, cache := Some (t, msgs), heap := heap w @ [Sales t]\<rparr>) = (Val sel, sbar, w2)"
    and out: "out1 = St_markdown ''Convention Sales Dashboard'' # msgs @ sbar"
    by blast
  have "list_all (\<lambda>u. \<not> is_output u) sbar"
    using sidebar_filters_Val[OF sb] by auto
  moreover have "list_all (\<lambda>u. \<not> is_output u) msgs" using ms by auto
  ultimately show ?thesis unfolding out by simp
qed

lemma ex_two_view:
  "fst (filtered_view ex_empty_choice ex_two_world) =
     Val (\<lparr>selected_location = Str ''London'', selected_event = Str ''All'',
           selected_day = Str ''All'', selected_anime = Str ''All'',
           selected_character = Str ''All'', selected_product = Str ''Pin''\<rparr>, 3,
          [''Location: London'', ''Product: Pin''])"
  "table_at (snd (snd (filtered_view ex_empty_choice ex_two_world))) 3 = []"
  by code_simp+

section \<open>What programs render, and programs that return\<close>

lemma emitsI: "(\<And>w. list_all P (fst (snd (m w)))) \<Longrightarrow> emits P m"
  by (simp add: emits_def)

lemma emitsD: "emits P m \<Longrightarrow> m w = (r, out, w') \<Longrightarrow> list_all P out"
  by (auto simp: emits_def dest: spec[of _ w])

lemma emits_ret: "emits P (ret x)"
  by (simp add: emits_def ret_def)

lemma emits_emit: "P u \<Longrightarrow> emits P (emit u)"
  by (simp add: emits_def emit_def)

lemma emits_raise_err: "emits P (raise_err e)"
  by (simp add: emits_def raise_err_def)

lemma emits_st_stop: "emits P st_stop"
  by (simp add: emits_def st_stop_def)

lemma emits_alloc: "emits P (alloc fr)"
  by (simp add: emits_def alloc_def)

lemma emits_get_table: "emits P (get_table a)"
  by (simp add: emits_def get_table_def)

lemma emits_get_dframe: "emits P (get_dframe a)"
  by (simp add: emits_def get_dframe_def)

lemma emits_set_column: "emits P (set_column a n g)"
  by (simp add: emits_def set_column_def Let_def)

lemma emits_set_columns: "emits P (set_columns a ns)"
  by (simp add: emits_def set_columns_def)


lemma emits_pbind:
  assumes "emits P m" "\<And>x. emits P (f x)"
  shows "emits P (pbind m f)"
proof (rule emitsI)
  fix w
  obtain r o1 w1 where m: "m w = (r, o1, w1)" by (cases "m w") auto
  have p1: "list_all P o1" using assms(1) m by (rule emitsD)
  show "list_all P (fst (snd (pbind m f w)))"
  proof (cases r)
    case (Val x)
    obtain r2 o2 w2 where f: "f x w1 = (r2, o2, w2)" by (cases "f x w1") auto
    have "list_all P o2" using assms(2) f by (rule emitsD)
    with p1 show ?thesis using m Val f by (simp add: pbind_def)
  next
    case (Raise e)
    then show ?thesis using m p1 by (simp add: pbind_def)
  next
    case Stopped
    then show ?thesis using m p1 by (simp add: pbind_def)
  qed
qed

lemma emits_if: "emits P a \<Longrightarrow> emits P b \<Longrightarrow> emits P (if c then a else b)"
  by simp

lemma emits_case_sum:
  "(\<And>e. emits P (A e)) \<Longrightarrow> (\<And>y. emits P (B y)) \<Longrightarrow> emits P (case s of Inl e \<Rightarrow> A e | Inr y \<Rightarrow> B y)"
  by (cases s) auto

lemma emits_case_option:
  "emits P A \<Longrightarrow> (\<And>y. emits P (B y)) \<Longrightarrow> emits P (case s of None \<Rightarrow> A | Some y \<Rightarrow> B y)"
  by (cases s) auto

lemma emits_case_prod:
  "(\<And>x y. emits P (B x y)) \<Longrightarrow> emits P (case p of (x, y) \<Rightarrow> B x y)"
  by (cases p) auto

lemmas emits_intros = emits_pbind emits_ret emits_raise_err emits_st_stop emits_alloc
  emits_get_table emits_get_dframe emits_set_column emits_set_columns emits_if emits_case_sum
  emits_case_option emits_case_prod


lemma emits_no_download_emit: "\<not> is_download u \<Longrightarrow> emits (\<lambda>u. \<not> is_download u) (emit u)"
  by (rule emits_emit)














lemma emits_show_active_filters: "emits (\<lambda>u. \<not> is_download u) (show_active_filters a)"
  unfolding show_active_filters_def
  by (intro emits_intros emits_emit) simp_all

lemma emits_stop_if_empty: "emits (\<lambda>u. \<not> is_download u) (stop_if_empty a)"
  unfolding stop_if_empty_def
  by (intro emits_intros emits_emit) simp_all

section \<open>Programs that return\<close>

lemma returnsI: "(\<And>w. \<exists>x. fst (m w) = Val x) \<Longrightarrow> returns m"
  by (simp add: returns_def)

lemma returnsD: "returns m \<Longrightarrow> \<exists>x out w'. m w = (Val x, out, w')"
  unfolding returns_def by (metis prod.collapse)

lemma returns_ret: "returns (ret x)"
  by (simp add: returns_def ret_def)

lemma returns_emit: "returns (emit u)"
  by (simp add: returns_def emit_def)

lemma returns_alloc: "returns (alloc fr)"
  by (simp add: returns_def alloc_def)

lemma returns_get_table: "returns (get_table a)"
  by (simp add: returns_def get_table_def)

lemma returns_get_dframe: "returns (get_dframe a)"
  by (simp add: returns_def get_dframe_def)

lemma returns_set_column: "returns (set_column a n g)"
  by (simp add: returns_def set_column_def Let_def)

lemma returns_set_columns: "returns (set_columns a ns)"
  by (simp add: returns_def set_columns_def)

lemma returns_st_dataframe: "returns (st_dataframe a)"
  by (simp add: returns_def st_dataframe_def emit_def)

lemma returns_st_download_button: "returns (st_download_button l a n)"
  by (simp add: returns_def st_download_button_def emit_def)

lemma returns_pbind:
  assumes "returns m" "\<And>x. returns (f x)"
  shows "returns (pbind m f)"
proof (rule returnsI)
  fix w
  from returnsD[OF assms(1), of w] obtain x o1 w1 where m: "m w = (Val x, o1, w1)" by blast
  from returnsD[OF assms(2), of x w1] obtain y o2 w2 where f: "f x w1 = (Val y, o2, w2)" by blast
  show "\<exists>y. fst (pbind m f w) = Val y" using m f by (simp add: pbind_def)
qed

lemma returns_if: "returns a \<Longrightarrow> returns b \<Longrightarrow> returns (if c then a else b)"
  by simp

lemma returns_case_option:
  "returns A \<Longrightarrow> (\<And>y. returns (B y)) \<Longrightarrow> returns (case s of None \<Rightarrow> A | Some y \<Rightarrow> B y)"
  by (cases s) auto

lemma returns_case_prod:
  "(\<And>x y. returns (B x y)) \<Longrightarrow> returns (case p of (x, y) \<Rightarrow> B x y)"
  by (cases p) auto

lemmas returns_intros = returns_pbind returns_ret returns_emit returns_alloc returns_get_table
  returns_get_dframe returns_set_column returns_set_columns returns_st_dataframe
  returns_st_download_button returns_if returns_case_option returns_case_prod

lemma returns_column: "returns (column a c)"
  unfolding column_def by (intro returns_intros)

lemma returns_top_card: "returns (top_card l n s)"
  unfolding top_card_def by (intro returns_intros)

lemma returns_create_sales_by_location: "returns (create_sales_by_location a)"
  unfolding create_sales_by_location_def by (intro returns_intros)

lemma returns_create_event_comparison: "returns (create_event_comparison a)"
  unfolding create_event_comparison_def by (intro returns_intros)

lemma returns_create_product_performance: "returns (create_product_performance a)"
  unfolding create_product_performance_def by (intro returns_intros)

lemma returns_create_top_characters: "returns (create_top_characters a)"
  unfolding create_top_characters_def by (intro returns_intros)

lemma returns_create_daily_performance: "returns (create_daily_performance a)"
  unfolding create_daily_performance_def by (intro returns_intros)

lemma returns_create_overview_metrics: "returns (create_overview_metrics a)"
  unfolding create_overview_metrics_def by (intro returns_intros returns_column returns_top_card)

lemma returns_create_detailed_analysis: "returns (create_detailed_analysis a)"
  unfolding create_detailed_analysis_def by (intro returns_intros)

lemma returns_sales_overview: "returns (sales_overview a)"
  unfolding sales_overview_def
  by (intro returns_intros returns_create_sales_by_location returns_create_event_comparison
      returns_create_product_performance returns_create_daily_performance)

lemma returns_character_overview: "returns (character_overview a)"
  unfolding character_overview_def by (intro returns_intros returns_create_top_characters)

lemma returns_data_insights: "returns (data_insights a)"
  unfolding data_insights_def by (intro returns_intros returns_column)

lemma returns_raw_data: "returns (raw_data a)"
  unfolding raw_data_def by (intro returns_intros)

lemma returns_export_options: "returns (export_options a sel)"
  unfolding export_options_def by (intro returns_intros)

section \<open>The rendered page and its downloads\<close>

lemma fst_prefixed [simp]: "fst (prefixed pre p) = fst p"
  by (cases p) (simp add: prefixed_def)




lemma returns_unit: "returns m \<Longrightarrow> fst (m w) = Val ()"
  unfolding returns_def by (metis (full_types) old.unit.exhaust)

lemma create_character_analysis_returns:
  assumes "char_rows (groupby [series_character, character_variant] (table_at w a)) = Inr rows"
  shows "\<exists>out w'. create_character_analysis a w = (Val (), out, w')"
proof -
  have "fst (create_character_analysis a w) = Val ()"
    unfolding create_character_analysis_def
    apply (simp add: emit_bind get_table_bind assms)
    apply (rule returns_unit)
    apply (intro returns_intros)
    done
  then show ?thesis by (metis prod.collapse)
qed

lemma render_returns:
  assumes "a < length (heap w)"
    and "char_rows (groupby [series_character, character_variant] (table_at w a)) = Inr rows"
  shows "\<exists>out w'. render a sel w = (Val (), out, w')"
proof -
  from returnsD[OF returns_create_overview_metrics, of a w] obtain o1 w1 where
    s1: "create_overview_metrics a w = (Val (), o1, w1)" by auto
  from returnsD[OF returns_sales_overview, of a w1] obtain o2 w2 where
    s2: "sales_overview a w1 = (Val (), o2, w2)" by auto
  from returnsD[OF returns_character_overview, of a w2] obtain o3 w3 where
    s3: "character_overview a w2 = (Val (), o3, w3)" by auto
  have n: "only_new_frames w w3"
    using framedD[OF framed_create_overview_metrics s1] framedD[OF framed_sales_overview s2]
      framedD[OF framed_character_overview s3]
    by (blast intro: only_new_frames_trans)
  have "frame_at w3 a = frame_at w a" using n assms(1) by (rule only_new_frames_frame_at)
  then have tb: "table_at w3 a = table_at w a" by (simp add: table_at_def)
  from create_character_analysis_returns[of w3 a rows] assms(2) tb obtain o4 w4 where
    s4: "create_character_analysis a w3 = (Val (), o4, w4)" by auto
  from returnsD[OF returns_create_detailed_analysis, of a w4] obtain o5 w5 where
    s5: "create_detailed_analysis a w4 = (Val (), o5, w5)" by auto
  from returnsD[OF returns_data_insights, of a w5] obtain o6 w6 where
    s6: "data_insights a w5 = (Val (), o6, w6)" by auto
  from returnsD[OF returns_raw_data, of a w6] obtain o7 w7 where
    s7: "raw_data a w6 = (Val (), o7, w7)" by auto
  from returnsD[OF returns_export_options, of a sel w7] obtain o8 w8 where
    s8: "export_options a sel w7 = (Val (), o8, w8)" by auto
  show ?thesis
    by (simp add: render_def pbind_def s1 s2 s3 s4 s5 s6 s7 s8)
qed


lemma main_returns:
  assumes "filtered_view ch w = (Val (sel, a, active), out1, w1)" and "table_at w1 a \<noteq> []"
    and "char_rows (groupby [series_character, character_variant] (table_at w1 a)) = Inr rows"
  shows "\<exists>out w'. main ch w = (Val (), out, w')"
proof -
  have "a < length (heap w1)" using filtered_view_Val[OF assms(1)] by blast
  from render_returns[OF this assms(3), of sel] obtain out2 w' where
    "render a sel w1 = (Val (), out2, w')" by blast
  then have "pbind (show_active_filters active) (\<lambda>_.
         pbind (stop_if_empty a) (\<lambda>_. render a sel)) w1 =
        (Val (), (if active \<noteq> [] then [St_markdown ''Active Filters'', St_info (join_with '' | '' active)]
                    else [St_success ''Showing all data - no filters applied'']) @ out2, w')"
    using assms(2) by (simp add: pbind_def show_active_filters_eq stop_if_empty_eq)
  moreover have "main ch w = prefixed out1
        (pbind (show_active_filters active) (\<lambda>_.
         pbind (stop_if_empty a) (\<lambda>_. render a sel)) w1)"
    by (simp add: main_def pbind_run[where m = "filtered_view ch", OF assms(1)])
  ultimately show ?thesis by (simp add: prefixed_def)
qed






lemma round2_min_q [simp]: "round2 (min_q qs) = min_q qs"
  by (simp add: min_q_def)

lemma round2_max_q [simp]: "round2 (max_q qs) = max_q qs"
  by (simp add: max_q_def)


lemma ex_all_view:
  "fst (filtered_view ex_all_choice ex_world) =
     Val (\<lparr>selected_location = Str ''All'', selected_event = Str ''All'',
           selected_day = Str ''All'', selected_anime = Str ''All'',
           selected_character = Str ''All'', selected_product = Str ''All''\<rparr>, 1, [])"
  "table_at (snd (snd (filtered_view ex_all_choice ex_world))) 1 = read_csv ex_lines"
  by code_simp+

lemma ex_all_char_rows:
  "\<exists>rows. char_rows (groupby [series_character, character_variant] (read_csv ex_lines)) = Inr rows"
  by (simp add: ex_read groupby_def group_step_def py_join_def unique_def)

lemma ex_all_returns: "\<exists>out w'. main ex_all_choice ex_world = (Val (), out, w')"
proof -
  have run: "filtered_view ex_all_choice ex_world =
      (Val (\<lparr>selected_location = Str ''All'', selected_event = Str ''All'',
           selected_day = Str ''All'', selected_anime = Str ''All'',
           selected_character = Str ''All'', selected_product = Str ''All''\<rparr>, 1, []),
       fst (snd (filtered_view ex_all_choice ex_world)),
       snd (snd (filtered_view ex_all_choice ex_world)))"
    using ex_all_view(1) by (metis prod.collapse)
  have ne: "table_at (snd (snd (filtered_view ex_all_choice ex_world))) 1 \<noteq> []"
    unfolding ex_all_view(2) by (simp add: ex_read)
  from ex_all_char_rows obtain rows where
    "char_rows (groupby [series_character, character_variant]
       (table_at (snd (snd (filtered_view ex_all_choice ex_world))) 1)) = Inr rows"
    unfolding ex_all_view(2) by blast
  with run ne show ?thesis by (rule main_returns)
qed














section \<open>Quantities and their statistics\<close>

lemma groupby_rows:
  assumes "(k, rs) \<in> set (groupby cols t)"
  shows "rs = filter (\<lambda>r. key_of cols r = Some k) t" "rs \<noteq> []"
proof -
  have "map_of (groupby cols t) k = Some rs"
    using assms groupby_distinct[of cols t] by simp
  then show "rs = filter (\<lambda>r. key_of cols r = Some k) t" "rs \<noteq> []"
    unfolding groupby_lookup by (auto split: if_splits)
qed

lemma nonneg_filter: "nonneg t \<Longrightarrow> nonneg (filter P t)"
  by (induction t) (auto simp: nonneg_def)

lemma nonneg_sum: "nonneg t \<Longrightarrow> 0 \<le> sum_list (map quantity t)"
  by (induction t) (auto simp: nonneg_def)

lemma nonneg_sum_filter:
  "nonneg t \<Longrightarrow> sum_list (map quantity (filter P t)) \<le> sum_list (map quantity t)"
  by (induction t) (auto simp: nonneg_def)

lemma sum_i64_nonneg:
  "nonneg t \<Longrightarrow> sum_list (map quantity t) < 2 ^ 63 \<Longrightarrow> 0 \<le> sum_i64 (map quantity t)"
  using nonneg_sum[of t] by (simp add: sum_i64_def wrap64_fits)

lemma mean_nonneg: "nonneg t \<Longrightarrow> t \<noteq> [] \<Longrightarrow> nonneg_num (mean (map quantity t))"
  by (simp add: mean_def nonneg_sum fl64_nonneg)

lemma round2_nonneg: "nonneg_num v \<Longrightarrow> nonneg_num (round2 v)"
  by (cases v) (auto intro!: fl64_nonneg round_half_even_nonneg)

lemma round2_NanV_or_nonneg: "v = NanV \<or> nonneg_num v \<Longrightarrow> round2 v = NanV \<or> nonneg_num (round2 v)"
  using round2_nonneg by auto

lemma std_never_negative: "std qs = NanV \<or> nonneg_num (std qs)"
  by (auto simp: std_def Let_def fl64_nonneg split: prod.splits)

lemma std_short: "length qs < 2 \<Longrightarrow> std qs = NanV"
  by (simp add: std_def)

lemma fold_min_nonneg: "0 \<le> (x::int) \<Longrightarrow> list_all (\<lambda>q. 0 \<le> q) qs \<Longrightarrow> 0 \<le> fold min qs x"
  by (induction qs arbitrary: x) auto

lemma fold_max_nonneg: "0 \<le> (x::int) \<Longrightarrow> 0 \<le> fold max qs x"
  by (induction qs arbitrary: x) auto

lemma min_q_nonneg: "nonneg t \<Longrightarrow> t \<noteq> [] \<Longrightarrow> nonneg_num (min_q (map quantity t))"
  by (cases t) (auto simp: min_q_def nonneg_def list_all_iff intro!: fold_min_nonneg)

lemma max_q_nonneg: "nonneg t \<Longrightarrow> t \<noteq> [] \<Longrightarrow> nonneg_num (max_q (map quantity t))"
  by (cases t) (auto simp: max_q_def nonneg_def intro!: fold_max_nonneg)

lemma stats_nonneg_table: "nonneg t \<Longrightarrow> stats_nonneg (map quantity t)"
  unfolding stats_nonneg_def
  using std_never_negative[of "map quantity t"]
  by (auto simp: mean_nonneg min_q_nonneg max_q_nonneg round2_nonneg std_short
      intro: round2_NanV_or_nonneg simp del: round2.simps(1))

lemma sum_i64_filter_nonneg:
  assumes "nonneg t" and "sum_list (map quantity t) < 2 ^ 63"
  shows "0 \<le> sum_i64 (map quantity (filter P t))"
proof -
  have "sum_list (map quantity (filter P t)) < 2 ^ 63"
    using nonneg_sum_filter[OF assms(1), of P] assms(2) by linarith
  with nonneg_filter[OF assms(1), of P] show ?thesis by (rule sum_i64_nonneg)
qed

lemma quantity_read_csv: "map quantity (read_csv ls) = map f_quantity ls"
  by (simp add: read_csv_def parse_line_def)

lemma ex_sample_view:
  "fst (filtered_view ex_all_choice ex_nofile_world) =
     Val (\<lparr>selected_location = Str ''All'', selected_event = Str ''All'',
           selected_day = Str ''All'', selected_anime = Str ''All'',
           selected_character = Str ''All'', selected_product = Str ''All''\<rparr>, 1, [])"
  by code_simp

lemma ex_view_table:
  "table_at (snd (snd (filtered_view ex_choice ex_world))) 2 =
     [parse_line ex_line, parse_line (ex_line\<lparr>f_character_variant := '''', f_quantity := 2\<rparr>)]"
  by code_simp

lemma ex_view_groups:
  "groupby [character_variant]
     [parse_line ex_line, parse_line (ex_line\<lparr>f_character_variant := '''', f_quantity := 2\<rparr>)] =
   [([''Fish''], [parse_line ex_line])]"
  by code_simp

lemma ex_refund:
  "fst (load_data ex_refund_world) = Val 0"
  "map quantity (table_at (snd (snd (load_data ex_refund_world))) 0) = [- 3]"
  "fst (filtered_view ex_all_choice ex_refund_world) =
     Val (\<lparr>selected_location = Str ''All'', selected_event = Str ''All'',
           selected_day = Str ''All'', selected_anime = Str ''All'',
           selected_character = Str ''All'', selected_product = Str ''All''\<rparr>, 1, [])"
  "map quantity (table_at (snd (snd (filtered_view ex_all_choice ex_refund_world))) 1) = [- 3]"
  "groupby_sum [location] (table_at (snd (snd (filtered_view ex_all_choice ex_refund_world))) 1) =
     [([''London''], - 3)]"
  by code_simp+

lemma ex_huge:
  "map quantity (table_at (snd (snd (load_data ex_huge_world))) 0) =
     [4611686018427387904, 4611686018427387904]"
  "fst (filtered_view ex_all_choice ex_huge_world) =
     Val (\<lparr>selected_location = Str ''All'', selected_event = Str ''All'',
           selected_day = Str ''All'', selected_anime = Str ''All'',
           selected_character = Str ''All'', selected_product = Str ''All''\<rparr>, 1, [])"
  "groupby_sum [location] (table_at (snd (snd (filtered_view ex_all_choice ex_huge_world))) 1) =
     [([''London''], - 9223372036854775808)]"
  by code_simp+

lemma fl64_half: "fl64 (1 / 2) = 1 / 2"
  using fl64_down[of 1 "1 / 2"] by (simp add: round_half_even_def)

lemma fl64_three_halves: "fl64 (3 / 2) = 3 / 2"
  using fl64_up[of 0 "3 / 2"] by (simp add: round_half_even_def)

lemma ex_pair_stats:
  "mean [1, 2] = RealV (3 / 2)"
  "std [1, 2] = RealV (fl64 (sqrt (1 / 2)))"
  "std [1] = NanV"
  "mean [1] = RealV 1"
  by (simp_all add: mean_def std_def welford_step_def fl64_half fl64_three_halves)


section \<open>Grouped totals\<close>

text \<open>
  C1, as the code has it. For a quantity column of 64-bit integers, the frame that
  \<open>create_sales_by_location\<close> charts holds, for a value \<open>g\<close> of the location column,
  exactly one row, and its total is the sum of the quantities of exactly the rows whose
  location equals \<open>g\<close>, reduced to 64 bits with wrap-around, as the library adds; it is
  that sum itself whenever the sum lies in the 64-bit range. A text that is no value of
  the column has no row.
\<close>

theorem sales_by_location_group_total:
  assumes "int64_column (map quantity (table_at w df))"
  shows "\<exists>fg out w'. create_sales_by_location df w = (Val fg, out, w') \<and>
     filter (\<lambda>r. nth_val r 0 = TextV g) (drows (fig_data fg)) =
       (if Str g \<in> set (map location (table_at w df))
        then [[TextV g,
               IntV (wrap64 (sum_list (map quantity
                 (filter (\<lambda>r. location r = Str g) (table_at w df)))))]]
        else []) \<and>
     (- (2 ^ 63) \<le> sum_list (map quantity (filter (\<lambda>r. location r = Str g) (table_at w df))) \<and>
      sum_list (map quantity (filter (\<lambda>r. location r = Str g) (table_at w df))) < 2 ^ 63 \<longrightarrow>
        wrap64 (sum_list (map quantity (filter (\<lambda>r. location r = Str g) (table_at w df)))) =
        sum_list (map quantity (filter (\<lambda>r. location r = Str g) (table_at w df))))"
  by (simp add: create_sales_by_location_eq filter_groupby_sum_rows groupby_lookup
      key_of_single_filter select_eq_empty_iff select_eq_Str[symmetric] sum_i64_def wrap64_fits
      del: key_of.simps)

theorem sales_by_location_group_total_witness:
  "int64_column (map quantity (table_at ex_loaded 0)) \<and>
   map (\<lambda>r. (location r, quantity r)) (table_at ex_loaded 0) =
     [(Str ''London'', 1), (Str ''Paris'', 5), (Str ''London'', 2)] \<and>
   (\<exists>fg out w'. create_sales_by_location 0 ex_loaded = (Val fg, out, w') \<and>
     filter (\<lambda>r. nth_val r 0 = TextV ''London'') (drows (fig_data fg)) = [[TextV ''London'', IntV 3]])"
proof -
  have i: "int64_column (map quantity (table_at ex_loaded 0))"
    by (simp add: ex_table ex_read int64_column_def)
  have r: "map (\<lambda>r. (location r, quantity r)) (table_at ex_loaded 0) =
     [(Str ''London'', 1), (Str ''Paris'', 5), (Str ''London'', 2)]"
    by (simp add: ex_table ex_read)
  from sales_by_location_group_total [OF i, of "''London''"]
  have "\<exists>fg out w'. create_sales_by_location 0 ex_loaded = (Val fg, out, w') \<and>
     filter (\<lambda>r. nth_val r 0 = TextV ''London'') (drows (fig_data fg)) = [[TextV ''London'', IntV 3]]"
    by (simp add: ex_table ex_read wrap64_def)
  with i r show ?thesis by blast
qed

text \<open>
  The claim as stated fails when the sum leaves the 64-bit range: for two sales of
  \<open>2 ^ 62\<close> pieces in London the charted total is \<open>- 2 ^ 63\<close>, while the quantities sum
  to \<open>2 ^ 63\<close>.
\<close>

theorem sales_by_location_overflow_counterexample:
  "int64_column (map quantity (table_at ex_huge_loaded 0)) \<and>
   map (\<lambda>r. (location r, quantity r)) (table_at ex_huge_loaded 0) =
     [(Str ''London'', 4611686018427387904), (Str ''London'', 4611686018427387904)] \<and>
   fst (create_sales_by_location 0 ex_huge_loaded) =
     Val \<lparr>fig_kind = Bar, fig_title = ''Sales by Location'',
          fig_data = \<lparr>columns = [''location'', ''quantity''],
                      drows = [[TextV ''London'', IntV (- 9223372036854775808)]]\<rparr>,
          fig_args = [(''x'', ''location''), (''y'', ''quantity''), (''color'', ''quantity''),
                      (''color_continuous_scale'', ''viridis''), (''height'', ''400'')]\<rparr> \<and>
   sum_list (map quantity (filter (\<lambda>r. location r = Str ''London'') (table_at ex_huge_loaded 0))) =
     9223372036854775808"
  by (simp add: create_sales_by_location_eq ex_huge_table parse_line_def parse_cell_def
      na_values_def ex_line_def int64_column_def groupby_sum_def groupby_def group_step_def
      reset_index_def sum_i64_def wrap64_def)


section \<open>The filtered view\<close>

text \<open>
  C2. When \<open>main\<close> gets as far as the filtered view, the view holds exactly the rows of
  the loaded table that pass the six selections shown in the dropdowns, in table order: a
  row passes when, for each selection that is not "All", its cell in that column equals the
  selection. With all six selections at "All" the view is the whole table.
\<close>

theorem filtered_view_exact:
  assumes "filtered_view ch w = (Val (sel, a, active), out, w')"
  shows "\<exists>df msgs w1 l1 l2 l3 l4 l5 l6.
     load_data w = (Val df, msgs, w1) \<and>
     out = St_markdown ''Convention Sales Dashboard'' # msgs @
           [St_sidebar_header ''Filters'',
            St_selectbox ''Select Location'' l1 (selected_location sel),
            St_selectbox ''Select Event Type'' l2 (selected_event sel),
            St_selectbox ''Select Day'' l3 (selected_day sel),
            St_selectbox ''Select Anime/Series'' l4 (selected_anime sel),
            St_selectbox ''Select Character'' l5 (selected_character sel),
            St_selectbox ''Select Product Type'' l6 (selected_product sel)] \<and>
     table_at w' a = filter (passes sel) (table_at w1 df) \<and>
     (selected_location sel = Str ''All'' \<and> selected_event sel = Str ''All'' \<and>
      selected_day sel = Str ''All'' \<and> selected_anime sel = Str ''All'' \<and>
      selected_character sel = Str ''All'' \<and> selected_product sel = Str ''All''
      \<longrightarrow> table_at w' a = table_at w1 df)"
proof -
  from filtered_view_Val[OF assms] obtain t msgs e w2 sbar where
    ld: "load_data w = (Val (length (heap w)), msgs,
                     w\<lparr>entropy := e, cache := Some (t, msgs), heap := heap w @ [Sales t]\<rparr>)"
    and sb: "sidebar_filters (length (heap w)) ch
        (w\<lparr>entropy := e, cache := Some (t, msgs), heap := heap w @ [Sales t]\<rparr>) = (Val sel, sbar, w2)"
    and out: "out = St_markdown ''Convention Sales Dashboard'' # msgs @ sbar"
    and tab: "table_at w' a = filter (passes sel) t"
    by blast
  let ?w1 = "w\<lparr>entropy := e, cache := Some (t, msgs), heap := heap w @ [Sales t]\<rparr>"
  have t1: "table_at ?w1 (length (heap w)) = t" by (simp add: table_at_def frame_at_def)
  have df: "length (heap w) < length (heap ?w1)" by simp
  from sidebar_filters_Val[OF sb df] obtain l1 l2 l3 l4 l5 l6 where
    "sbar = [St_sidebar_header ''Filters'',
             St_selectbox ''Select Location'' (Str ''All'' # l1) (selected_location sel),
             St_selectbox ''Select Event Type'' (Str ''All'' # l2) (selected_event sel),
             St_selectbox ''Select Day'' (Str ''All'' # l3) (selected_day sel),
             St_selectbox ''Select Anime/Series'' (Str ''All'' # l4) (selected_anime sel),
             St_selectbox ''Select Character'' (Str ''All'' # l5) (selected_character sel),
             St_selectbox ''Select Product Type'' (Str ''All'' # l6) (selected_product sel)]"
    by blast
  moreover have "selected_location sel = Str ''All'' \<and> selected_event sel = Str ''All'' \<and>
      selected_day sel = Str ''All'' \<and> selected_anime sel = Str ''All'' \<and>
      selected_character sel = Str ''All'' \<and> selected_product sel = Str ''All''
      \<longrightarrow> filter (passes sel) t = t"
    by (simp add: passes_def)
  ultimately show ?thesis using ld out tab t1 by (metis (no_types, lifting))
qed

theorem filtered_view_exact_witness:
  "fst (filtered_view ex_choice ex_world) = Val (ex_sel, 2, [''Location: London'']) \<and>
   map quantity (table_at (snd (snd (filtered_view ex_choice ex_world))) 2) = [1, 2]"
proof -
  have run: "filtered_view ex_choice ex_world =
      (Val (ex_sel, 2, [''Location: London'']), fst (snd (filtered_view ex_choice ex_world)),
       snd (snd (filtered_view ex_choice ex_world)))"
    using ex_view by (metis prod.collapse)
  from filtered_view_exact[OF run] ex_load
  have "table_at (snd (snd (filtered_view ex_choice ex_world))) 2 =
        filter (passes ex_sel) (read_csv ex_lines)"
    by (auto simp: table_at_def frame_at_def)
  then show ?thesis using ex_view by (simp add: ex_read passes_def ex_sel_def)
qed

section \<open>An empty view\<close>

text \<open>
  C3. When the filtered view has no rows, \<open>main\<close> shows the notice on the active filters
  and the warning, and stops there: what it rendered is the header, the messages of
  \<open>load_data\<close>, the sidebar, that notice and the warning, with no card, metric, table,
  chart or download button among them.
\<close>

theorem empty_view_stops:
  assumes "cache_ok w" and "filtered_view ch w = (Val (sel, a, active), out1, w1)"
    and "table_at w1 a = []"
  shows "main ch w =
           (Stopped,
            out1 @ (if active \<noteq> [] then [St_markdown ''Active Filters'', St_info (join_with '' | '' active)]
                    else [St_success ''Showing all data - no filters applied'']) @
            [St_warning no_match_msg], w1) \<and>
         list_all (\<lambda>u. \<not> is_output u) out1"
proof
  show "main ch w =
           (Stopped,
            out1 @ (if active \<noteq> [] then [St_markdown ''Active Filters'', St_info (join_with '' | '' active)]
                    else [St_success ''Showing all data - no filters applied'']) @
            [St_warning no_match_msg], w1)"
  proof -
    have "main ch w = prefixed out1
        (pbind (show_active_filters active) (\<lambda>_.
         pbind (stop_if_empty a) (\<lambda>_. render a sel)) w1)"
      by (simp add: main_def pbind_run[where m = "filtered_view ch", OF assms(2)])
    also have "pbind (show_active_filters active) (\<lambda>_.
         pbind (stop_if_empty a) (\<lambda>_. render a sel)) w1 =
        (Stopped, (if active \<noteq> [] then [St_markdown ''Active Filters'', St_info (join_with '' | '' active)]
                    else [St_success ''Showing all data - no filters applied'']) @
            [St_warning no_match_msg], w1)"
      using assms(3) by (simp add: pbind_def show_active_filters_eq stop_if_empty_eq)
    finally show ?thesis by (simp add: prefixed_def)
  qed
  show "list_all (\<lambda>u. \<not> is_output u) out1"
    using assms(1,2) by (rule filtered_view_no_output)
qed

theorem empty_view_stops_witness:
  "cache_ok ex_two_world \<and>
   table_at (snd (snd (filtered_view ex_empty_choice ex_two_world))) 3 = [] \<and>
   main ex_empty_choice ex_two_world =
     (Stopped,
      fst (snd (filtered_view ex_empty_choice ex_two_world)) @
      [St_markdown ''Active Filters'', St_info ''Location: London | Product: Pin'',
       St_warning no_match_msg],
      snd (snd (filtered_view ex_empty_choice ex_two_world)))"
proof -
  have ok: "cache_ok ex_two_world" by (simp add: cache_ok_def ex_two_world_def ex_world_def)
  have run: "filtered_view ex_empty_choice ex_two_world =
      (Val (\<lparr>selected_location = Str ''London'', selected_event = Str ''All'',
           selected_day = Str ''All'', selected_anime = Str ''All'',
           selected_character = Str ''All'', selected_product = Str ''Pin''\<rparr>, 3,
          [''Location: London'', ''Product: Pin'']),
       fst (snd (filtered_view ex_empty_choice ex_two_world)),
       snd (snd (filtered_view ex_empty_choice ex_two_world)))"
    using ex_two_view(1) by (metis prod.collapse)
  from empty_view_stops[OF ok run ex_two_view(2)] ok ex_two_view(2)
  show ?thesis by simp
qed

section \<open>Loading\<close>

text \<open>
  C4, as the code has it. \<open>load_data\<close> never fails. On a call that finds nothing cached
  (the first call of the process): when the file is missing it shows the error and the
  warning and returns a sample table of 150 rows, row \<open>i\<close> holding the fixed categorical
  values of position \<open>i mod 3\<close> and a drawn quantity from 1 to 19; when the file is there it
  returns the table read from it and shows nothing. Either way the result is cached, and
  every later call returns the cached table and shows the cached messages, whatever the
  file is by then.
\<close>

theorem load_data_cases:
  "(cache w = None \<and> csv_file w = None \<longrightarrow>
      (\<exists>t. load_data w =
           (Val (length (heap w)), [St_error not_found_msg, St_warning sample_msg],
            w\<lparr>entropy := (\<lambda>i. entropy w (i + 150)),
              cache := Some (t, [St_error not_found_msg, St_warning sample_msg]),
              heap := heap w @ [Sales t]\<rparr>) \<and>
         length t = 150 \<and>
         (\<forall>i<150.
            sheet_name (t ! i) = [Str ''MEGA LDN SAT'', Str ''MEGA LDN SUN'', Str ''AL LDN SAT''] ! (i mod 3) \<and>
            location (t ! i) = Str ''London'' \<and>
            day (t ! i) = [Str ''Saturday'', Str ''Sunday'', Str ''Saturday''] ! (i mod 3) \<and>
            event_type (t ! i) = [Str ''Mega'', Str ''Mega'', Str ''AL''] ! (i mod 3) \<and>
            series_character (t ! i) = [Str ''JJK'', Str ''Frieren'', Str ''ACNH''] ! (i mod 3) \<and>
            character_variant (t ! i) = [Str ''Fish'', Str ''Frieren'', Str ''Blathers''] ! (i mod 3) \<and>
            product_type (t ! i) = [Str ''Bag'', Str ''Keyring'', Str ''Pin''] ! (i mod 3) \<and>
            1 \<le> quantity (t ! i) \<and> quantity (t ! i) < 20))) \<and>
   (\<forall>ls. cache w = None \<and> csv_file w = Some ls \<longrightarrow>
      load_data w = (Val (length (heap w)), [],
                     w\<lparr>cache := Some (read_csv ls, []), heap := heap w @ [Sales (read_csv ls)]\<rparr>)) \<and>
   (\<forall>t msgs. cache w = Some (t, msgs) \<longrightarrow>
      load_data w = (Val (length (heap w)), msgs, w\<lparr>heap := heap w @ [Sales t]\<rparr>))"
  using load_data_miss_missing[of w] load_data_miss_present[of w] load_data_hit[of w] by blast

theorem load_data_cases_witness:
  "(\<exists>t. load_data ex_nofile_world =
           (Val 0, [St_error not_found_msg, St_warning sample_msg],
            ex_nofile_world\<lparr>entropy := (\<lambda>i. i + 150),
              cache := Some (t, [St_error not_found_msg, St_warning sample_msg]),
              heap := [Sales t]\<rparr>) \<and> length t = 150) \<and>
   load_data ex_world =
     (Val 0, [], ex_world\<lparr>cache := Some (read_csv ex_lines, []), heap := [Sales (read_csv ex_lines)]\<rparr>) \<and>
   (\<exists>t. cache ex_late_world = Some (t, [St_error not_found_msg, St_warning sample_msg]) \<and>
        load_data ex_late_world =
          (Val 1, [St_error not_found_msg, St_warning sample_msg],
           ex_late_world\<lparr>heap := heap ex_late_world @ [Sales t]\<rparr>))"
proof -
  have a: "cache ex_nofile_world = None \<and> csv_file ex_nofile_world = None"
    by (simp add: ex_nofile_world_def ex_world_def)
  have b: "cache ex_world = None \<and> csv_file ex_world = Some ex_lines"
    by (simp add: ex_world_def)
  obtain t where c: "cache ex_late_world = Some (t, [St_error not_found_msg, St_warning sample_msg])"
    and h: "heap ex_late_world = [Sales t]"
    using ex_nofile_load by (auto simp: ex_late_world_def)
  have 1: "\<exists>t. load_data ex_nofile_world =
           (Val 0, [St_error not_found_msg, St_warning sample_msg],
            ex_nofile_world\<lparr>entropy := (\<lambda>i. i + 150),
              cache := Some (t, [St_error not_found_msg, St_warning sample_msg]),
              heap := [Sales t]\<rparr>) \<and> length t = 150"
    using load_data_cases[of ex_nofile_world] a
    by (auto simp: ex_nofile_world_def ex_world_def)
  have 2: "load_data ex_world =
     (Val 0, [], ex_world\<lparr>cache := Some (read_csv ex_lines, []), heap := [Sales (read_csv ex_lines)]\<rparr>)"
    using load_data_cases[of ex_world] b by (auto simp: ex_world_def)
  have 3: "load_data ex_late_world =
          (Val 1, [St_error not_found_msg, St_warning sample_msg],
           ex_late_world\<lparr>heap := heap ex_late_world @ [Sales t]\<rparr>)"
    using load_data_cases[of ex_late_world] c h by auto
  from 1 2 3 c show ?thesis by blast
qed

text \<open>
  The claim as stated fails on a later call: a process that started without the file has
  cached the sample table; with the file in place, \<open>load_data\<close> still returns the sample
  table and shows the warning.
\<close>

theorem load_data_file_present_counterexample:
  "csv_file ex_late_world = Some ex_lines \<and>
   (\<exists>a msgs w'. load_data ex_late_world = (Val a, msgs, w') \<and>
      table_at w' a \<noteq> read_csv ex_lines \<and>
      msgs = [St_error not_found_msg, St_warning sample_msg])"
proof -
  from ex_late_load obtain t where
    f: "csv_file ex_late_world = Some ex_lines"
    and l: "load_data ex_late_world =
       (Val 1, [St_error not_found_msg, St_warning sample_msg],
        ex_late_world\<lparr>heap := heap ex_late_world @ [Sales t]\<rparr>)"
    and n: "length t = 150" by blast
  have h: "length (heap ex_late_world) = 1"
    using ex_nofile_load by (auto simp: ex_late_world_def)
  have "table_at (ex_late_world\<lparr>heap := heap ex_late_world @ [Sales t]\<rparr>) 1 = t"
    using h by (simp add: table_at_def frame_at_def nth_append)
  moreover have "length (read_csv ex_lines) = 3" by (simp add: read_csv_def ex_lines_def)
  ultimately have "table_at (ex_late_world\<lparr>heap := heap ex_late_world @ [Sales t]\<rparr>) 1 \<noteq> read_csv ex_lines"
    using n by auto
  with f l show ?thesis by blast
qed

section \<open>The dropdowns and missing values\<close>

text \<open>
  C5. The location dropdown does not drop missing values. For a file whose only record has
  no location it offers "All" and NaN; for a file where one of two records has no location,
  \<open>sorted\<close> raises TypeError and the run ends after the sidebar header. (The event type,
  day and product type dropdowns are built the same way; the series and character
  dropdowns filter missing values out.)
\<close>

theorem location_dropdown_missing_values:
  "fst (snd (filtered_view ex_all_choice ex_missing_world)) ! 2 =
     St_selectbox ''Select Location'' [Str ''All'', NaN] (Str ''All'') \<and>
   fst (filtered_view ex_all_choice ex_mixed_world) = Raise TypeError \<and>
   fst (snd (filtered_view ex_all_choice ex_mixed_world)) =
     [St_markdown ''Convention Sales Dashboard'', St_sidebar_header ''Filters'']"
  by code_simp

section \<open>The loaded table is left as it was\<close>

text \<open>
  C6. However \<open>main\<close> ends, the dataframe that \<open>load_data\<close> returned is at the end
  what it was when it was loaded, as is every other object that existed then; the cache
  keeps the loaded table, so that later interactions get the same one. The filtered view
  is another object than the loaded table.
\<close>

theorem loaded_table_unchanged:
  assumes "load_data w = (Val df, msgs, w1)" and "main ch w = (r, out, w')"
  shows "frame_at w' df = frame_at w1 df \<and> only_new_frames w1 w' \<and>
         (\<exists>t. frame_at w1 df = Sales t \<and> cache w' = Some (t, msgs)) \<and>
         (\<forall>sel a active out1 w2. filtered_view ch w = (Val (sel, a, active), out1, w2) \<longrightarrow> df < a)"
proof -
  from load_data_result[of w] assms(1) obtain t e where
    df: "df = length (heap w)"
    and w1: "w1 = w\<lparr>entropy := e, cache := Some (t, msgs), heap := heap w @ [Sales t]\<rparr>"
    by auto
  have "w' = snd (snd (main ch w))" using assms(2) by simp
  also have "\<dots> = snd (snd (pbind (sidebar_filters df ch) (\<lambda>sel.
        pbind (apply_filters df sel) (\<lambda>st.
        pbind (show_active_filters (snd st)) (\<lambda>_.
        pbind (stop_if_empty (fst st)) (\<lambda>_.
        render (fst st) sel)))) w1))"
    by (simp add: main_after_load[OF assms(1)])
  finally have new: "only_new_frames w1 w'"
    using framed_after_load[of df ch] by (simp add: framed_def)
  have lt: "df < length (heap w1)" by (simp add: df w1)
  have same: "frame_at w' df = frame_at w1 df"
    using new lt by (rule only_new_frames_frame_at)
  have fr: "frame_at w1 df = Sales t" by (simp add: df w1 frame_at_def)
  have c: "cache w' = Some (t, msgs)" using new by (simp add: only_new_frames_def w1)
  have "df < a" if "filtered_view ch w = (Val (sel, a, active), out1, w2)" for sel a active out1 w2
    using filtered_view_Val[OF that] df by blast
  with same new fr c show ?thesis by blast
qed

theorem loaded_table_unchanged_witness:
  "load_data ex_world = (Val 0, [], ex_world\<lparr>heap := [Sales (read_csv ex_lines)],
      cache := Some (read_csv ex_lines, [])\<rparr>) \<and>
   frame_at (snd (snd (main ex_choice ex_world))) 0 = Sales (read_csv ex_lines) \<and>
   cache (snd (snd (main ex_choice ex_world))) = Some (read_csv ex_lines, [])"
proof -
  have run: "main ex_choice ex_world =
     (fst (main ex_choice ex_world), fst (snd (main ex_choice ex_world)),
      snd (snd (main ex_choice ex_world)))" by simp
  from loaded_table_unchanged[OF ex_load run] ex_load
  show ?thesis by (auto simp: frame_at_def)
qed

section \<open>The chart functions are pure\<close>

text \<open>
  C7. What a chart function does depends on nothing but the table it is given: two calls
  on equal tables, in any two states and at any two addresses, end the same way, with
  equal results. A call renders nothing, leaves the file, the random generator, the cache
  and every existing dataframe as they were, and the new frames it builds also depend on
  the table alone.
\<close>

theorem chart_functions_pure:
  assumes "f \<in> set [create_sales_by_location, create_event_comparison, create_product_performance,
                      create_top_characters, create_daily_performance]"
    and "table_at w1 a1 = table_at w2 a2"
  shows "fst (f a1 w1) = fst (f a2 w2) \<and>
         fst (snd (f a1 w1)) = [] \<and> only_new_frames w1 (snd (snd (f a1 w1))) \<and>
         drop (length (heap w1)) (heap (snd (snd (f a1 w1)))) =
         drop (length (heap w2)) (heap (snd (snd (f a2 w2))))"
  using assms
  by (auto simp: create_sales_by_location_eq create_event_comparison_eq
      create_product_performance_eq create_top_characters_eq create_daily_performance_eq)

theorem chart_functions_pure_witness:
  "table_at ex_loaded 0 = table_at ex_other 1 \<and>
   fst (create_top_characters 0 ex_loaded) = fst (create_top_characters 1 ex_other) \<and>
   fst (snd (create_top_characters 0 ex_loaded)) = [] \<and>
   only_new_frames ex_loaded (snd (snd (create_top_characters 0 ex_loaded)))"
proof -
  have t: "table_at ex_loaded 0 = table_at ex_other 1"
    by (simp add: ex_loaded_def ex_other_def table_at_def frame_at_def)
  from chart_functions_pure[of create_top_characters ex_loaded 0 ex_other 1] t
  show ?thesis by simp
qed

section \<open>The downloads\<close>





section \<open>Non-negative quantities\<close>

text \<open>
  C9, as the code has it. \<open>load_data\<close> does not check the quantities. The sample table
  holds quantities from 1 to 19, and a table read from the file holds the quantities of
  the file as they are. When no quantity of the loaded table is negative, none of the
  filtered view is, and for the view, every selection of its rows and every group of any
  grouping of them: the mean, the minimum and the maximum of the quantities, rounded or
  not, are numbers that are not negative when there is a row; the standard deviation is
  missing for fewer than two rows and is never a negative number; the 64-bit sum is not
  negative as long as the total of the loaded table is below \<open>2 ^ 63\<close>.
\<close>

theorem quantity_nonneg_preserved:
  assumes "filtered_view ch w = (Val (sel, a, active), out, w1)"
  shows "\<exists>df msgs w0. load_data w = (Val df, msgs, w0) \<and>
     (cache w = None \<and> csv_file w = None \<longrightarrow>
        list_all (\<lambda>r. 1 \<le> quantity r \<and> quantity r < 20) (table_at w0 df)) \<and>
     (\<forall>ls. cache w = None \<and> csv_file w = Some ls \<longrightarrow>
        map quantity (table_at w0 df) = map f_quantity ls) \<and>
     (nonneg (table_at w0 df) \<longrightarrow>
        nonneg (table_at w1 a) \<and>
        (\<forall>P. stats_nonneg (map quantity (filter P (table_at w1 a))) \<and>
             (sum_list (map quantity (table_at w0 df)) < 2 ^ 63 \<longrightarrow>
                0 \<le> sum_i64 (map quantity (filter P (table_at w1 a))))) \<and>
        (\<forall>P cols k rs. (k, rs) \<in> set (groupby cols (filter P (table_at w1 a))) \<longrightarrow>
             stats_nonneg (map quantity rs) \<and>
             (sum_list (map quantity (table_at w0 df)) < 2 ^ 63 \<longrightarrow>
                0 \<le> sum_i64 (map quantity rs))))"
proof -
  from filtered_view_Val[OF assms] obtain t msgs e where
    ld: "load_data w = (Val (length (heap w)), msgs,
                     w\<lparr>entropy := e, cache := Some (t, msgs), heap := heap w @ [Sales t]\<rparr>)"
    and tab: "table_at w1 a = filter (passes sel) t"
    by blast
  let ?w0 = "w\<lparr>entropy := e, cache := Some (t, msgs), heap := heap w @ [Sales t]\<rparr>"
  have t0: "table_at ?w0 (length (heap w)) = t" by (simp add: table_at_def frame_at_def)
  have sample: "list_all (\<lambda>r. 1 \<le> quantity r \<and> quantity r < 20) t"
    if "cache w = None" "csv_file w = None"
  proof -
    from load_data_miss_missing[OF that] obtain t' where
      l: "load_data w =
           (Val (length (heap w)), [St_error not_found_msg, St_warning sample_msg],
            w\<lparr>entropy := (\<lambda>i. entropy w (i + 150)),
              cache := Some (t', [St_error not_found_msg, St_warning sample_msg]),
              heap := heap w @ [Sales t']\<rparr>)"
      and n: "length t' = 150"
      and q: "\<forall>i<150. 1 \<le> quantity (t' ! i) \<and> quantity (t' ! i) < 20"
      by blast
    have "heap (snd (snd (load_data w))) = heap w @ [Sales t]" unfolding ld by simp
    moreover have "heap (snd (snd (load_data w))) = heap w @ [Sales t']" unfolding l by simp
    ultimately have "t = t'" by simp
    then show ?thesis using n q by (simp add: list_all_length)
  qed
  have from_file: "map quantity t = map f_quantity ls" if "cache w = None" "csv_file w = Some ls" for ls
  proof -
    have "heap (snd (snd (load_data w))) = heap w @ [Sales t]" unfolding ld by simp
    moreover have "heap (snd (snd (load_data w))) = heap w @ [Sales (read_csv ls)]"
      unfolding load_data_miss_present[OF that] by simp
    ultimately have "t = read_csv ls" by simp
    then show ?thesis by (simp add: quantity_read_csv)
  qed
  have view: "nonneg (table_at w1 a)" if "nonneg t"
    unfolding tab using that by (rule nonneg_filter)
  have whole: "stats_nonneg (map quantity (filter P (table_at w1 a))) \<and>
             (sum_list (map quantity t) < 2 ^ 63 \<longrightarrow>
                0 \<le> sum_i64 (map quantity (filter P (table_at w1 a))))" if "nonneg t" for P
  proof -
    have f: "filter P (table_at w1 a) = filter (\<lambda>r. passes sel r \<and> P r) t"
      unfolding tab by (simp add: conj_commute)
    show ?thesis unfolding f
      using stats_nonneg_table[OF nonneg_filter[OF that]] sum_i64_filter_nonneg[OF that]
      by blast
  qed
  have groups: "stats_nonneg (map quantity rs) \<and>
             (sum_list (map quantity t) < 2 ^ 63 \<longrightarrow> 0 \<le> sum_i64 (map quantity rs))"
    if "nonneg t" "(k, rs) \<in> set (groupby cols (filter P (table_at w1 a)))" for P cols k rs
  proof -
    have "rs = filter (\<lambda>r. key_of cols r = Some k) (filter P (table_at w1 a))"
      using that(2) by (rule groupby_rows)
    then have f: "rs = filter (\<lambda>r. passes sel r \<and> P r \<and> key_of cols r = Some k) t"
      unfolding tab by (simp add: conj_commute conj_left_commute)
    show ?thesis unfolding f
      using stats_nonneg_table[OF nonneg_filter[OF that(1)]] sum_i64_filter_nonneg[OF that(1)]
      by blast
  qed
  show ?thesis
    apply (rule exI[of _ "length (heap w)"], rule exI[of _ msgs], rule exI[of _ ?w0])
    unfolding t0 using ld sample from_file view whole groups by blast
qed

theorem quantity_nonneg_preserved_witness:
  "(cache ex_world = None \<and> csv_file ex_world = Some ex_lines) \<and>
   map quantity (table_at (snd (snd (load_data ex_world))) 0) = [1, 5, 2] \<and>
   nonneg (table_at (snd (snd (load_data ex_world))) 0) \<and>
   sum_list (map quantity (table_at (snd (snd (load_data ex_world))) 0)) < 2 ^ 63 \<and>
   map quantity (table_at (snd (snd (filtered_view ex_choice ex_world))) 2) = [1, 2] \<and>
   nonneg (table_at (snd (snd (filtered_view ex_choice ex_world))) 2) \<and>
   stats_nonneg [1, 2] \<and> 0 \<le> sum_i64 [1, 2] \<and>
   ([''Fish''], [parse_line ex_line]) \<in>
     set (groupby [character_variant] (table_at (snd (snd (filtered_view ex_choice ex_world))) 2)) \<and>
   stats_nonneg [1] \<and> 0 \<le> sum_i64 [1] \<and>
   (cache ex_nofile_world = None \<and> csv_file ex_nofile_world = None) \<and>
   list_all (\<lambda>r. 1 \<le> quantity r \<and> quantity r < 20)
     (table_at (snd (snd (load_data ex_nofile_world))) 0) \<and>
   (mean [1, 2] = RealV (3 / 2) \<and> std [1, 2] = RealV (fl64 (sqrt (1 / 2))) \<and>
    0 \<le> fl64 (sqrt (1 / 2)) \<and> mean [1] = RealV 1 \<and> std [1] = NanV)"
proof -
  let ?v = "table_at (snd (snd (filtered_view ex_choice ex_world))) 2"
  have run: "filtered_view ex_choice ex_world =
      (Val (ex_sel, 2, [''Location: London'']), fst (snd (filtered_view ex_choice ex_world)),
       snd (snd (filtered_view ex_choice ex_world)))"
    using ex_view by (metis prod.collapse)
  have c: "cache ex_world = None \<and> csv_file ex_world = Some ex_lines"
    by (simp add: ex_world_def)
  have l0: "table_at (snd (snd (load_data ex_world))) 0 = read_csv ex_lines"
    unfolding ex_load by (simp add: table_at_def frame_at_def)
  have f0: "fst (load_data ex_world) = Val 0" unfolding ex_load by simp
  from quantity_nonneg_preserved[OF run] obtain df msgs w0 where
    ld: "load_data ex_world = (Val df, msgs, w0)"
    and fl: "\<forall>ls. cache ex_world = None \<and> csv_file ex_world = Some ls \<longrightarrow>
        map quantity (table_at w0 df) = map f_quantity ls"
    and nn: "nonneg (table_at w0 df) \<longrightarrow>
        nonneg ?v \<and>
        (\<forall>P. stats_nonneg (map quantity (filter P ?v)) \<and>
             (sum_list (map quantity (table_at w0 df)) < 2 ^ 63 \<longrightarrow>
                0 \<le> sum_i64 (map quantity (filter P ?v)))) \<and>
        (\<forall>P cols k rs. (k, rs) \<in> set (groupby cols (filter P ?v)) \<longrightarrow>
             stats_nonneg (map quantity rs) \<and>
             (sum_list (map quantity (table_at w0 df)) < 2 ^ 63 \<longrightarrow>
                0 \<le> sum_i64 (map quantity rs)))"
    by blast
  have df: "df = 0" and w0: "w0 = snd (snd (load_data ex_world))" using ld f0 by simp_all
  have t0: "table_at w0 df = read_csv ex_lines" unfolding df w0 by (rule l0)
  have q0: "map quantity (read_csv ex_lines) = [1, 5, 2]"
    using fl c unfolding t0 by (simp add: ex_lines_def ex_line_def)
  have n0: "nonneg (read_csv ex_lines)" by (simp add: ex_read nonneg_def)
  have s0: "sum_list (map quantity (read_csv ex_lines)) < 2 ^ 63" unfolding q0 by simp
  have qv: "map quantity ?v = [1, 2]"
    unfolding ex_view_table by (simp add: parse_line_def ex_line_def)
  have g: "([''Fish''], [parse_line ex_line]) \<in> set (groupby [character_variant] (filter (\<lambda>r. True) ?v))"
    unfolding ex_view_table by (simp add: ex_view_groups)
  from nn n0 have nv: "nonneg ?v"
    and whole: "stats_nonneg (map quantity (filter (\<lambda>r. True) ?v)) \<and>
             (sum_list (map quantity (table_at w0 df)) < 2 ^ 63 \<longrightarrow>
                0 \<le> sum_i64 (map quantity (filter (\<lambda>r. True) ?v)))"
    and grp: "stats_nonneg (map quantity [parse_line ex_line]) \<and>
             (sum_list (map quantity (table_at w0 df)) < 2 ^ 63 \<longrightarrow>
                0 \<le> sum_i64 (map quantity [parse_line ex_line]))"
    unfolding t0 using g by blast+
  have a: "stats_nonneg [1, 2] \<and> 0 \<le> sum_i64 [1, 2]"
    using whole s0 unfolding t0 by (simp add: qv)
  have b: "stats_nonneg [1] \<and> 0 \<le> sum_i64 [1]"
    using grp s0 unfolding t0 by (simp add: parse_line_def ex_line_def)
  have g': "([''Fish''], [parse_line ex_line]) \<in> set (groupby [character_variant] ?v)"
    using g by simp
  have run2: "filtered_view ex_all_choice ex_nofile_world =
      (Val (\<lparr>selected_location = Str ''All'', selected_event = Str ''All'',
           selected_day = Str ''All'', selected_anime = Str ''All'',
           selected_character = Str ''All'', selected_product = Str ''All''\<rparr>, 1, []),
       fst (snd (filtered_view ex_all_choice ex_nofile_world)),
       snd (snd (filtered_view ex_all_choice ex_nofile_world)))"
    using ex_sample_view by (metis prod.collapse)
  have c2: "cache ex_nofile_world = None \<and> csv_file ex_nofile_world = None"
    by (simp add: ex_nofile_world_def ex_world_def)
  have f2: "fst (load_data ex_nofile_world) = Val 0" using ex_nofile_load by auto
  from quantity_nonneg_preserved[OF run2] obtain df2 msgs2 w2 where
    ld2: "load_data ex_nofile_world = (Val df2, msgs2, w2)"
    and sm: "cache ex_nofile_world = None \<and> csv_file ex_nofile_world = None \<longrightarrow>
        list_all (\<lambda>r. 1 \<le> quantity r \<and> quantity r < 20) (table_at w2 df2)"
    by blast
  have "df2 = 0" and "w2 = snd (snd (load_data ex_nofile_world))" using ld2 f2 by simp_all
  with sm c2 have s: "list_all (\<lambda>r. 1 \<le> quantity r \<and> quantity r < 20)
     (table_at (snd (snd (load_data ex_nofile_world))) 0)" by simp
  have "std [1, 2] = NanV \<or> nonneg_num (std [1, 2])"
    using a by (simp add: stats_nonneg_def del: round2.simps(1))
  then have e: "mean [1, 2] = RealV (3 / 2) \<and> std [1, 2] = RealV (fl64 (sqrt (1 / 2))) \<and>
    0 \<le> fl64 (sqrt (1 / 2)) \<and> mean [1] = RealV 1 \<and> std [1] = NanV"
    by (simp add: ex_pair_stats)
  show ?thesis
    unfolding l0 using c q0 n0 s0 qv nv a b g' c2 s e by blast
qed

text \<open>
  The claim as stated fails on a file that holds a negative quantity: the record is loaded
  as it is, stays in the view, and the group's total is negative. It also fails on two
  sales of \<open>2 ^ 62\<close> pieces, whose 64-bit total wraps around to \<open>- 2 ^ 63\<close>.
\<close>

theorem negative_quantity_counterexample:
  "fst (load_data ex_refund_world) = Val 0 \<and>
   map quantity (table_at (snd (snd (load_data ex_refund_world))) 0) = [- 3] \<and>
   fst (filtered_view ex_all_choice ex_refund_world) =
     Val (\<lparr>selected_location = Str ''All'', selected_event = Str ''All'',
           selected_day = Str ''All'', selected_anime = Str ''All'',
           selected_character = Str ''All'', selected_product = Str ''All''\<rparr>, 1, []) \<and>
   map quantity (table_at (snd (snd (filtered_view ex_all_choice ex_refund_world))) 1) = [- 3] \<and>
   groupby_sum [location] (table_at (snd (snd (filtered_view ex_all_choice ex_refund_world))) 1) =
     [([''London''], - 3)] \<and>
   map quantity (table_at (snd (snd (load_data ex_huge_world))) 0) =
     [4611686018427387904, 4611686018427387904] \<and>
   groupby_sum [location] (table_at (snd (snd (filtered_view ex_all_choice ex_huge_world))) 1) =
     [([''London''], - 9223372036854775808)]"
  using ex_refund ex_huge by simp


section \<open>The character dropdown\<close>




end
